theory Spec2Isabelle
  imports Main "HOL-Library.Sublist" "HOL-Library.Multiset"
begin

section \<open>JavaScript strings\<close>

text \<open>
  A JavaScript string is modelled as a \<open>string\<close>: a list of characters, each standing for
  one code unit below 256. The operations below are the ones the orchestrator uses:
  \<open>String.prototype.trim\<close>, \<open>includes\<close>, \<open>slice(0, n)\<close> (which is \<open>take n\<close>), the three
  marker regular expressions, \<open>JSON.stringify\<close> on a string, and number formatting in
  template literals.
\<close>

abbreviation NL :: char where
  "NL \<equiv> CHR 0x0A"

abbreviation DQ :: char where
  "DQ \<equiv> CHR 0x22"

abbreviation BSL :: char where
  "BSL \<equiv> CHR 0x5C"

text \<open>White space as \<open>trim\<close> sees it: TAB, LF, VT, FF, CR, SPACE and NBSP.\<close>

definition is_ws :: "char \<Rightarrow> bool" where
  "is_ws c = (c = CHR 0x09 \<or> c = CHR 0x0A \<or> c = CHR 0x0B \<or> c = CHR 0x0C \<or> c = CHR 0x0D
              \<or> c = CHR 0x20 \<or> c = CHR 0xA0)"

definition trim :: "string \<Rightarrow> string" where
  "trim s = rev (dropWhile is_ws (rev (dropWhile is_ws s)))"

text \<open>\<open>s.includes(pat)\<close>: \<open>pat\<close> occurs somewhere in \<open>s\<close>.\<close>

fun str_includes :: "string \<Rightarrow> string \<Rightarrow> bool" where
  "str_includes [] pat = (pat = [])"
| "str_includes (c # cs) pat = (prefix pat (c # cs) \<or> str_includes cs pat)"

text \<open>
  \<open>split_first pat s\<close> cuts \<open>s\<close> at the leftmost occurrence of \<open>pat\<close> and returns the text
  before it and the text after it.
\<close>

fun split_first :: "string \<Rightarrow> string \<Rightarrow> (string \<times> string) option" where
  "split_first pat [] = (if pat = [] then Some ([], []) else None)"
| "split_first pat (c # cs) =
     (if prefix pat (c # cs) then Some ([], drop (length pat) (c # cs))
      else (case split_first pat cs of
              None \<Rightarrow> None
            | Some (b, a) \<Rightarrow> Some (c # b, a)))"

text \<open>
  \<open>s.match(/OPEN([\s\S]*?)CLOSE/)\<close> for literal \<open>OPEN\<close> and \<open>CLOSE\<close>: the match starts at the
  leftmost \<open>OPEN\<close> and the lazy group ends at the first \<open>CLOSE\<close> after it. The result is
  capture group 1, or \<open>None\<close> when the expression does not match.
\<close>

definition match_group :: "string \<Rightarrow> string \<Rightarrow> string \<Rightarrow> string option" where
  "match_group opn cls s =
     (case split_first opn s of
        None \<Rightarrow> None
      | Some (_, rest) \<Rightarrow>
          (case split_first cls rest of
             None \<Rightarrow> None
           | Some (g, _) \<Rightarrow> Some g))"

text \<open>The three marker expressions \<open>/START\n([\s\S]*?)\nEND/\<close>.\<close>

definition match_between :: "string \<Rightarrow> string \<Rightarrow> string \<Rightarrow> string option" where
  "match_between start fin s = match_group (start @ [NL]) (NL # fin) s"

definition finalMatch :: "string \<Rightarrow> string option" where
  "finalMatch output = match_between ''__RLM_FINAL_START__'' ''__RLM_FINAL_END__'' output"

definition batchMatch :: "string \<Rightarrow> string option" where
  "batchMatch output = match_between ''__LLM_BATCH_START__'' ''__LLM_BATCH_END__'' output"

definition queryMatch :: "string \<Rightarrow> string option" where
  "queryMatch output = match_between ''__LLM_QUERY_START__'' ''__LLM_QUERY_END__'' output"

text \<open>Decimal rendering of a number inside a template literal.\<close>

definition digit_char :: "nat \<Rightarrow> char" where
  "digit_char d = char_of (48 + d)"

fun show_nat :: "nat \<Rightarrow> string" where
  "show_nat n = (if n < 10 then [digit_char n] else show_nat (n div 10) @ [digit_char (n mod 10)])"

definition show_int :: "int \<Rightarrow> string" where
  "show_int i = (if i < 0 then CHR ''-'' # show_nat (nat (- i)) else show_nat (nat i))"

text \<open>
  \<open>JSON.stringify\<close> applied to a string: the text in double quotes, with the quote, the
  backslash and the control characters escaped.
\<close>

definition hex_char :: "nat \<Rightarrow> char" where
  "hex_char d = (if d < 10 then char_of (48 + d) else char_of (87 + d))"

definition json_escape :: "char \<Rightarrow> string" where
  "json_escape c =
     (if c = DQ then [BSL, DQ]
      else if c = BSL then [BSL, BSL]
      else if c = CHR 0x08 then [BSL, CHR ''b'']
      else if c = CHR 0x0C then [BSL, CHR ''f'']
      else if c = CHR 0x0A then [BSL, CHR ''n'']
      else if c = CHR 0x0D then [BSL, CHR ''r'']
      else if c = CHR 0x09 then [BSL, CHR ''t'']
      else if of_char c < (32 :: nat)
        then [BSL, CHR ''u'', CHR ''0'', CHR ''0'',
              hex_char (of_char c div 16), hex_char (of_char c mod 16)]
      else [c])"

definition JSON_stringify :: "string \<Rightarrow> string" where
  "JSON_stringify s = DQ # concat (map json_escape s) @ [DQ]"

section \<open>The data model (types.ts)\<close>

datatype RLMNodeStatus = Pending | Executing | LlmCalling | Completed | Errored

record RLMNode =
  n_id :: string
  n_parentId :: "string option"
  n_depth :: int
  n_status :: RLMNodeStatus
  n_code :: string
  n_output :: string
  n_error :: "string option"
  n_llmPrompt :: "string option"
  n_llmResponse :: "string option"
  n_contextId :: string
  n_startedAt :: int
  n_completedAt :: "int option"

datatype TreeStatus = Idle | Running | TreeCompleted | TreeError

record RLMTreeState =
  t_nodes :: "RLMNode list"
  t_rootContextId :: string
  t_status :: TreeStatus
  t_finalResult :: "string option"
  t_error :: "string option"

text \<open>
  The eight event variants of \<open>RLMEvent\<close>. \<open>OtherEvent\<close> stands for a parsed object whose
  \<open>type\<close> is none of them: the reducer's \<open>default\<close> branch.
\<close>

datatype RLMEvent =
    NodeCreated RLMNode
  | NodeStatus string RLMNodeStatus
  | NodeOutput string string
  | NodeLlmStart string string
  | NodeLlmEnd string string
  | NodeError string string
  | ExecutionComplete string
  | ExecutionError string
  | OtherEvent string

section \<open>The tree-state reducer (tree-state.ts)\<close>

definition createInitialTreeState :: RLMTreeState where
  "createInitialTreeState =
     \<lparr> t_nodes = [], t_rootContextId = [], t_status = Idle,
       t_finalResult = None, t_error = None \<rparr>"

text \<open>
  \<open>treeStateReducer\<close> reads the clock in its \<open>node:status\<close> branch; the reading is the
  first argument.
\<close>

fun treeStateReducer :: "int \<Rightarrow> RLMTreeState \<Rightarrow> RLMEvent \<Rightarrow> RLMTreeState" where
  "treeStateReducer now state (NodeCreated node) =
     state \<lparr> t_status := Running,
             t_rootContextId :=
               (if t_rootContextId state \<noteq> [] then t_rootContextId state else n_contextId node),
             t_nodes := t_nodes state @ [node] \<rparr>"
| "treeStateReducer now state (NodeStatus nodeId st) =
     state \<lparr> t_nodes :=
       map (\<lambda>node. if n_id node = nodeId
                    then node \<lparr> n_status := st,
                                n_completedAt :=
                                  (if st = Completed \<or> st = Errored then Some now else None) \<rparr>
                    else node)
           (t_nodes state) \<rparr>"
| "treeStateReducer now state (NodeOutput nodeId out) =
     state \<lparr> t_nodes :=
       map (\<lambda>node. if n_id node = nodeId
                    then node \<lparr> n_output := n_output node @ out @ [NL] \<rparr>
                    else node)
           (t_nodes state) \<rparr>"
| "treeStateReducer now state (NodeLlmStart nodeId prompt) =
     state \<lparr> t_nodes :=
       map (\<lambda>node. if n_id node = nodeId then node \<lparr> n_llmPrompt := Some prompt \<rparr> else node)
           (t_nodes state) \<rparr>"
| "treeStateReducer now state (NodeLlmEnd nodeId response) =
     state \<lparr> t_nodes :=
       map (\<lambda>node. if n_id node = nodeId
                    then node \<lparr> n_llmResponse := Some response, n_code := response \<rparr>
                    else node)
           (t_nodes state) \<rparr>"
| "treeStateReducer now state (NodeError nodeId err) =
     state \<lparr> t_nodes :=
       map (\<lambda>node. if n_id node = nodeId
                    then node \<lparr> n_error := Some err, n_status := Errored \<rparr>
                    else node)
           (t_nodes state) \<rparr>"
| "treeStateReducer now state (ExecutionComplete res) =
     state \<lparr> t_status := TreeCompleted, t_finalResult := Some res \<rparr>"
| "treeStateReducer now state (ExecutionError err) =
     state \<lparr> t_status := TreeError, t_error := Some err \<rparr>"
| "treeStateReducer now state (OtherEvent ty) = state"

text \<open>Folding a sequence of events, each with the clock reading at its dispatch.\<close>

definition foldEvents :: "RLMTreeState \<Rightarrow> (int \<times> RLMEvent) list \<Rightarrow> RLMTreeState" where
  "foldEvents state tes = foldl (\<lambda>s (now, e). treeStateReducer now s e) state tes"

definition getNodeById :: "RLMTreeState \<Rightarrow> string \<Rightarrow> RLMNode option" where
  "getNodeById state nodeId = find (\<lambda>n. n_id n = nodeId) (t_nodes state)"

definition getRootNode :: "RLMTreeState \<Rightarrow> RLMNode option" where
  "getRootNode state = find (\<lambda>n. n_parentId n = None) (t_nodes state)"

fun is_created :: "RLMEvent \<Rightarrow> bool" where
  "is_created (NodeCreated node) = True"
| "is_created e = False"

fun is_terminal_event :: "RLMEvent \<Rightarrow> bool" where
  "is_terminal_event (ExecutionComplete res) = True"
| "is_terminal_event (ExecutionError err) = True"
| "is_terminal_event e = False"

definition terminal_status :: "TreeStatus \<Rightarrow> bool" where
  "terminal_status st = (st = TreeCompleted \<or> st = TreeError)"

section \<open>Effects: the outside world, the event stream, exceptions\<close>

text \<open>
  Everything outside the orchestrator (the model-completion provider, the sandbox service,
  the id generator, the clock, the persistence service) answers through an oracle on an
  abstract world \<open>'w\<close>. A computation takes the world and returns its result, the trace of
  what it did (events handed to the event callback and calls to the outside, oldest
  first) and the new world. A result \<open>Inl msg\<close> is a thrown exception (a rejected promise)
  with message \<open>msg\<close>. Awaited calls are taken in program order; the members of a
  \<open>Promise.all\<close> are taken in index order.
\<close>

record GenRequest =
  g_system :: "string option"
  g_prompt :: string
  g_maxOutputTokens :: nat
  g_thinkingBudget :: "nat option"

datatype action =
    Emit RLMEvent
  | CallGenerateText GenRequest
  | CallCreateSandbox string int
  | CallRunCode string
  | CallCloseSandbox
  | CallAppend string
  | CallCreateContext string

type_synonym ('a, 'w) eff = "'w \<Rightarrow> (string + 'a) \<times> action list \<times> 'w"

definition retE :: "'a \<Rightarrow> ('a, 'w) eff" where
  "retE x = (\<lambda>w. (Inr x, [], w))"

definition throwE :: "string \<Rightarrow> ('a, 'w) eff" where
  "throwE msg = (\<lambda>w. (Inl msg, [], w))"

definition bindE :: "('a, 'w) eff \<Rightarrow> ('a \<Rightarrow> ('b, 'w) eff) \<Rightarrow> ('b, 'w) eff" where
  "bindE m f = (\<lambda>w.
     case m w of
       (Inl msg, tr, w1) \<Rightarrow> (Inl msg, tr, w1)
     | (Inr x, tr, w1) \<Rightarrow> (case f x w1 of (r, tr2, w2) \<Rightarrow> (r, tr @ tr2, w2)))"

text \<open>\<open>try { m } catch (e) { h e }\<close> and \<open>try { m } finally { fin }\<close>.\<close>

definition catchE :: "('a, 'w) eff \<Rightarrow> (string \<Rightarrow> ('a, 'w) eff) \<Rightarrow> ('a, 'w) eff" where
  "catchE m h = (\<lambda>w.
     case m w of
       (Inl msg, tr, w1) \<Rightarrow> (case h msg w1 of (r, tr2, w2) \<Rightarrow> (r, tr @ tr2, w2))
     | (Inr x, tr, w1) \<Rightarrow> (Inr x, tr, w1))"

definition finallyE :: "('a, 'w) eff \<Rightarrow> (unit, 'w) eff \<Rightarrow> ('a, 'w) eff" where
  "finallyE m fin = (\<lambda>w.
     case m w of
       (r, tr, w1) \<Rightarrow>
         (case fin w1 of
            (Inl msg2, tr2, w2) \<Rightarrow> (Inl msg2, tr @ tr2, w2)
          | (Inr u, tr2, w2) \<Rightarrow> (r, tr @ tr2, w2)))"

definition emitE :: "RLMEvent \<Rightarrow> (unit, 'w) eff" where
  "emitE ev = (\<lambda>w. (Inr (), [Emit ev], w))"

definition whenE :: "bool \<Rightarrow> (unit, 'w) eff \<Rightarrow> (unit, 'w) eff" where
  "whenE b m = (if b then m else retE ())"

text \<open>A call to the outside that cannot throw, and one that can; both are logged.\<close>

definition askE :: "action \<Rightarrow> ('w \<Rightarrow> 'a \<times> 'w) \<Rightarrow> ('a, 'w) eff" where
  "askE a oracle = (\<lambda>w. case oracle w of (x, w1) \<Rightarrow> (Inr x, [a], w1))"

definition quietE :: "('w \<Rightarrow> 'a \<times> 'w) \<Rightarrow> ('a, 'w) eff" where
  "quietE oracle = (\<lambda>w. case oracle w of (x, w1) \<Rightarrow> (Inr x, [], w1))"

definition callE :: "action \<Rightarrow> ('w \<Rightarrow> (string + 'a) \<times> 'w) \<Rightarrow> ('a, 'w) eff" where
  "callE a oracle = (\<lambda>w. case oracle w of (r, w1) \<Rightarrow> (r, [a], w1))"

text \<open>The events of a trace, in emission order.\<close>

fun events_of :: "action list \<Rightarrow> RLMEvent list" where
  "events_of [] = []"
| "events_of (Emit ev # tr) = ev # events_of tr"
| "events_of (a # tr) = events_of tr"

text \<open>JavaScript truthiness of a string that may be undefined.\<close>

fun truthy :: "string option \<Rightarrow> bool" where
  "truthy None = False"
| "truthy (Some s) = (s \<noteq> [])"

section \<open>The sandbox wrapper (class RLMSandbox)\<close>

record ExecutionResult =
  r_success :: bool
  r_output :: string
  r_error :: "string option"
  r_finalResult :: "string option"

text \<open>
  The fields of an \<open>RLMSandbox\<close> object. \<open>sb_sandbox\<close> is \<open>this.sandbox\<close> (\<open>None\<close> before
  \<open>initialize\<close>), \<open>sb_runtimePrefix\<close> exists in the Daytona client only.
\<close>

record RLMSandbox =
  sb_sandbox :: "nat option"
  sb_parentNodeId :: string
  sb_contextId :: string
  sb_currentDepth :: int
  sb_runtimePrefix :: string

text \<open>What one run in the Daytona sandbox returns: \<open>process.codeRun\<close> throws, returns
  something that is no object, or returns an object with \<open>result\<close>, \<open>artifacts.stdout\<close> and
  \<open>exitCode\<close>, each possibly missing.\<close>

datatype DaytonaRun =
    RunThrew string
  | RunInvalid
  | RunResult "string option" "string option" "int option"

text \<open>What one run in the E2B sandbox delivers: the stdout and stderr messages passed to
  the callbacks, in order, and then either a thrown exception or an execution whose
  \<open>error\<close> (name and value) may be set.\<close>

datatype OutMsg = Stdout "string option" | Stderr "string option"

datatype E2BCompletion = Threw string | Finished "(string \<times> string) option"

record E2BRun =
  x_messages :: "OutMsg list"
  x_completion :: E2BCompletion

text \<open>The oracles. \<open>jsonParse\<close> is \<open>JSON.parse\<close> on the batch payload: it throws or yields
  the list of prompts.\<close>

record 'w env =
  generateText :: "GenRequest \<Rightarrow> 'w \<Rightarrow> (string + string) \<times> 'w"
  nanoid :: "'w \<Rightarrow> string \<times> 'w"
  dateNow :: "'w \<Rightarrow> int \<times> 'w"
  jsonParse :: "string \<Rightarrow> string + string list"
  codeRun :: "string \<Rightarrow> 'w \<Rightarrow> DaytonaRun \<times> 'w"
  sandboxCreate :: "'w \<Rightarrow> (string + nat) \<times> 'w"
  runCode :: "nat \<Rightarrow> string \<Rightarrow> 'w \<Rightarrow> E2BRun \<times> 'w"
  sandboxKill :: "nat \<Rightarrow> 'w \<Rightarrow> (string + unit) \<times> 'w"
  ucAppend :: "string \<times> string \<times> string \<times> string \<times> string \<Rightarrow> 'w \<Rightarrow> (string + unit) \<times> 'w"
  ucCreate :: "string \<Rightarrow> 'w \<Rightarrow> (string + string) \<times> 'w"
  apiKey :: "string option"
  systemPrompt :: string

type_synonym 'w handler = "string \<Rightarrow> string \<Rightarrow> (string, 'w) eff"

text \<open>One turn of the loop either goes on with a new \<open>fullOutput\<close> and \<open>currentCode\<close>
  (\<open>continue\<close>) or returns.\<close>

datatype iter = Continue string string | Return ExecutionResult

text \<open>The classification of one run's raw output by the three marker expressions. The
  payloads are the trimmed capture groups.\<close>

datatype decoded = FinalResult string | PendingBatch string | PendingSingle string | NoMarker

definition newChildNode :: "RLMSandbox \<Rightarrow> string \<Rightarrow> string \<Rightarrow> int \<Rightarrow> RLMNode" where
  "newChildNode sb childNodeId prompt now =
     \<lparr> n_id = childNodeId, n_parentId = Some (sb_parentNodeId sb),
       n_depth = sb_currentDepth sb + 1, n_status = LlmCalling, n_code = [], n_output = [],
       n_error = None, n_llmPrompt = Some prompt, n_llmResponse = None,
       n_contextId = sb_contextId sb, n_startedAt = now, n_completedAt = None \<rparr>"

fun join_lines :: "string list \<Rightarrow> string" where
  "join_lines [] = []"
| "join_lines [l] = l"
| "join_lines (l # ls) = l @ NL # join_lines ls"

definition cacheEntry :: "string \<times> string \<Rightarrow> string" where
  "cacheEntry pr = ''_llm_cache['' @ JSON_stringify (fst pr) @ ''] = '' @ JSON_stringify (snd pr)"

section \<open>The Daytona client: executeWithLlmSupport\<close>

text \<open>\<open>output.replace(/__LLM_.*?__|__RLM_.*?__/g, '')\<close>. After the six characters of
  \<open>__LLM_\<close> or \<open>__RLM_\<close>, \<open>marker_end\<close> is the length of the shortest run without a line break
  that ends in two underscores.\<close>

fun marker_end :: "string \<Rightarrow> nat option" where
  "marker_end [] = None"
| "marker_end (c # cs) =
     (if prefix ''__'' (c # cs) then Some 2
      else if c = NL \<or> c = CHR 0x0D then None
      else (case marker_end cs of None \<Rightarrow> None | Some n \<Rightarrow> Some (Suc n)))"

fun strip_markers :: "nat \<Rightarrow> string \<Rightarrow> string" where
  "strip_markers k [] = []"
| "strip_markers (Suc k) (c # cs) = strip_markers k cs"
| "strip_markers 0 (c # cs) =
     (if prefix ''__LLM_'' (c # cs) \<or> prefix ''__RLM_'' (c # cs)
      then (case marker_end (drop 6 (c # cs)) of
              None \<Rightarrow> c # strip_markers 0 cs
            | Some n \<Rightarrow> strip_markers (5 + n) cs)
      else c # strip_markers 0 cs)"

definition daytona_decode :: "string \<Rightarrow> decoded" where
  "daytona_decode output =
     (case finalMatch output of
        Some g \<Rightarrow> FinalResult (trim g)
      | None \<Rightarrow>
          (case batchMatch output of
             Some g \<Rightarrow> PendingBatch (trim g)
           | None \<Rightarrow>
               (case queryMatch output of
                  Some g \<Rightarrow> PendingSingle (trim g)
                | None \<Rightarrow> NoMarker)))"

text \<open>\<open>prompts.slice(i, i + 10).map(prompt => ...)\<close>: a node is created for each prompt of
  the group.\<close>

fun daytona_createNodes :: "'w env \<Rightarrow> RLMSandbox \<Rightarrow> string list \<Rightarrow> ((string \<times> string) list, 'w) eff" where
  "daytona_createNodes env sb [] = retE []"
| "daytona_createNodes env sb (prompt # ps) =
     bindE (quietE (nanoid env)) (\<lambda>nodeId.
     bindE (quietE (dateNow env)) (\<lambda>now.
     bindE (emitE (NodeCreated (newChildNode sb nodeId prompt now))) (\<lambda>_.
     bindE (daytona_createNodes env sb ps) (\<lambda>rest.
     retE ((nodeId, prompt) # rest)))))"

text \<open>\<open>Promise.all(batch.map(async ({nodeId, prompt}) => ...))\<close>.\<close>

fun daytona_resolveAll :: "'w handler \<Rightarrow> (string \<times> string) list \<Rightarrow> (string list, 'w) eff" where
  "daytona_resolveAll llmQueryHandler [] = retE []"
| "daytona_resolveAll llmQueryHandler ((nodeId, prompt) # rest) =
     bindE (llmQueryHandler prompt nodeId) (\<lambda>resp.
     bindE (emitE (NodeStatus nodeId Completed)) (\<lambda>_.
     bindE (daytona_resolveAll llmQueryHandler rest) (\<lambda>resps.
     retE (resp # resps))))"

text \<open>\<open>for (let i = 0; i < prompts.length; i += 10)\<close>, with \<open>responses\<close> accumulated.\<close>

function daytona_batches ::
  "'w env \<Rightarrow> RLMSandbox \<Rightarrow> 'w handler \<Rightarrow> string list \<Rightarrow> nat \<Rightarrow> string list \<Rightarrow> (string list, 'w) eff" where
  "daytona_batches env sb llmQueryHandler prompts i responses =
     (if i < length prompts then
        bindE (daytona_createNodes env sb (take 10 (drop i prompts))) (\<lambda>batch.
        bindE (daytona_resolveAll llmQueryHandler batch) (\<lambda>results.
        bindE (emitE (NodeOutput (sb_parentNodeId sb)
                 (show_nat (min (i + 10) (length prompts)) @ ''/'' @ show_nat (length prompts)))) (\<lambda>_.
        daytona_batches env sb llmQueryHandler prompts (i + 10) (responses @ results))))
      else retE responses)"
  by pat_completeness auto
termination
  by (relation "measure (\<lambda>(env, sb, h, prompts, i, responses). length prompts - i)") auto

definition daytona_batchCode :: "string list \<Rightarrow> string list \<Rightarrow> string \<Rightarrow> string" where
  "daytona_batchCode prompts responses code =
     ''_llm_cache = {}'' @ NL # join_lines (map cacheEntry (zip prompts responses)) @ NL # code"

definition daytona_singleCode :: "string \<Rightarrow> string \<Rightarrow> string \<Rightarrow> string" where
  "daytona_singleCode prompt resp code =
     ''_llm_cache = {'' @ JSON_stringify prompt @ '': '' @ JSON_stringify resp @ ''}'' @ NL # code"

text \<open>The output a Daytona run hands to the loop: \<open>result.result || artifacts?.stdout || ''\<close>.\<close>

definition run_output :: "string option \<Rightarrow> string option \<Rightarrow> string" where
  "run_output res stdout =
     (if truthy res then the res else if truthy stdout then the stdout else [])"

definition daytona_crashed :: "string \<Rightarrow> string \<Rightarrow> ExecutionResult" where
  "daytona_crashed fullOutput output =
     \<lparr> r_success = False, r_output = fullOutput @ output,
       r_error = Some (''Sandbox crashed (no exit code). '' @
                  (if output \<noteq> [] then ''Output before crash: '' @ take 500 output
                   else ''No output captured'')),
       r_finalResult = None \<rparr>"

text \<open>The body of the \<open>while\<close> loop, after \<open>iteration++\<close>.\<close>

definition daytona_iteration ::
  "'w env \<Rightarrow> RLMSandbox \<Rightarrow> string \<Rightarrow> 'w handler \<Rightarrow> string \<Rightarrow> string \<Rightarrow> (iter, 'w) eff" where
  "daytona_iteration env sb code llmQueryHandler fullOutput currentCode =
     bindE (askE (CallRunCode (sb_runtimePrefix sb @ currentCode))
                 (codeRun env (sb_runtimePrefix sb @ currentCode))) (\<lambda>run.
     case run of
       RunThrew msg \<Rightarrow>
         retE (Return \<lparr> r_success = False, r_output = [],
                        r_error = Some (''Execution failed: '' @ msg), r_finalResult = None \<rparr>)
     | RunInvalid \<Rightarrow>
         retE (Return \<lparr> r_success = False, r_output = [],
                        r_error = Some ''Sandbox returned invalid result'', r_finalResult = None \<rparr>)
     | RunResult res stdout exitCode \<Rightarrow>
         (let output = run_output res stdout in
          case exitCode of
            None \<Rightarrow> retE (Return (daytona_crashed fullOutput output))
          | Some ec \<Rightarrow>
              (let fullOutput' = fullOutput @ output;
                   cleanOutput = trim (strip_markers 0 output) in
               bindE (whenE (cleanOutput \<noteq> [] \<and> \<not> str_includes output ''__LLM_'')
                        (emitE (NodeOutput (sb_parentNodeId sb) cleanOutput))) (\<lambda>_.
               case daytona_decode output of
                 FinalResult fin \<Rightarrow>
                   retE (Return \<lparr> r_success = True, r_output = fullOutput',
                                  r_error = None, r_finalResult = Some fin \<rparr>)
               | PendingBatch payload \<Rightarrow>
                   (case jsonParse env payload of
                      Inl msg \<Rightarrow> throwE msg
                    | Inr prompts \<Rightarrow>
                        bindE (emitE (NodeOutput (sb_parentNodeId sb)
                                 (''Processing '' @ show_nat (length prompts) @ '' queries...''))) (\<lambda>_.
                        bindE (daytona_batches env sb llmQueryHandler prompts 0 []) (\<lambda>responses.
                        retE (Continue fullOutput' (daytona_batchCode prompts responses code)))))
               | PendingSingle prompt \<Rightarrow>
                   bindE (quietE (nanoid env)) (\<lambda>nodeId.
                   bindE (quietE (dateNow env)) (\<lambda>now.
                   bindE (emitE (NodeCreated (newChildNode sb nodeId prompt now))) (\<lambda>_.
                   bindE (llmQueryHandler prompt nodeId) (\<lambda>resp.
                   bindE (emitE (NodeStatus nodeId Completed)) (\<lambda>_.
                   retE (Continue fullOutput' (daytona_singleCode prompt resp code)))))))
               | NoMarker \<Rightarrow>
                   (if ec = 42 \<or> ec = 43 then retE (Continue fullOutput' currentCode)
                    else if ec \<noteq> 0 then
                      bindE (emitE (NodeError (sb_parentNodeId sb) output)) (\<lambda>_.
                      retE (Return \<lparr> r_success = False, r_output = fullOutput',
                                     r_error = Some (''Exit code '' @ show_int ec @ '': '' @ output),
                                     r_finalResult = None \<rparr>))
                    else
                      retE (Return \<lparr> r_success = True, r_output = fullOutput', r_error = None,
                                     r_finalResult =
                                       Some (if trim fullOutput' \<noteq> [] then trim fullOutput'
                                             else ''Done'') \<rparr>))))))"

text \<open>\<open>while (iteration < 100) { iteration++; ... }\<close>, followed by the return after the
  loop. The result is paired with the value of \<open>iteration\<close> at exit.\<close>

function daytona_loop ::
  "'w env \<Rightarrow> RLMSandbox \<Rightarrow> string \<Rightarrow> 'w handler \<Rightarrow> nat \<Rightarrow> string \<Rightarrow> string
     \<Rightarrow> (ExecutionResult \<times> nat, 'w) eff" where
  "daytona_loop env sb code llmQueryHandler iteration fullOutput currentCode =
     (if iteration < 100 then
        bindE (daytona_iteration env sb code llmQueryHandler fullOutput currentCode) (\<lambda>it.
        case it of
          Continue fullOutput' currentCode' \<Rightarrow>
            daytona_loop env sb code llmQueryHandler (iteration + 1) fullOutput' currentCode'
        | Return res \<Rightarrow> retE (res, iteration + 1))
      else retE (\<lparr> r_success = False, r_output = fullOutput,
                   r_error = Some ''Max iterations'', r_finalResult = None \<rparr>, iteration))"
  by pat_completeness auto
termination
  by (relation "measure (\<lambda>(env, sb, code, h, iteration, fo, cc). 100 - iteration)") auto

definition daytona_executeWithLlmSupport ::
  "'w env \<Rightarrow> RLMSandbox \<Rightarrow> string \<Rightarrow> 'w handler \<Rightarrow> (ExecutionResult \<times> nat, 'w) eff" where
  "daytona_executeWithLlmSupport env sb code llmQueryHandler =
     (if sb_sandbox sb = None then throwE ''Not initialized''
      else daytona_loop env sb code llmQueryHandler 0 [] code)"

section \<open>The E2B client: executeWithLlmSupport\<close>

text \<open>The Python runtime that \<open>initialize\<close> runs once in a fresh E2B sandbox:
  the context variable and the stubs \<open>llm_query\<close>, \<open>llm_query_batch\<close>, \<open>FINAL\<close> and
  \<open>FINAL_VAR\<close>.\<close>

definition e2b_runtimeCode :: "string \<Rightarrow> string" where
  "e2b_runtimeCode ctx =
     join_lines
      ['''',
        ''import json'',
        '''',
        ''# context variable'',
        ''context = '']
     @ JSON_stringify ctx @
     join_lines
      ['''',
        '''',
        ''# state'',
        ''_rlm_final_result = None'',
        ''_rlm_finished = False'',
        '''',
        ''def llm_query(prompt: str) -> str:'',
        ''    \"\"\"Call sub-LLM. Blocks until response is provided.\"\"\"'',
        ''    print(f\"__LLM_QUERY_START__\")'',
        ''    print(prompt)'',
        ''    print(f\"__LLM_QUERY_END__\")'',
        ''    raise RuntimeError(\"LLM_QUERY_PENDING\")'',
        '''',
        ''def llm_query_batch(prompts: list) -> list:'',
        ''    \"\"\"Call multiple sub-LLMs IN PARALLEL. Much faster for many queries.\"\"\"'',
        ''    print(f\"__LLM_BATCH_START__\")'',
        ''    print(json.dumps(prompts))'',
        ''    print(f\"__LLM_BATCH_END__\")'',
        ''    raise RuntimeError(\"LLM_BATCH_PENDING\")'',
        '''',
        ''def FINAL(result: str) -> None:'',
        ''    \"\"\"Return final result and terminate.\"\"\"'',
        ''    global _rlm_final_result, _rlm_finished'',
        ''    _rlm_final_result = str(result)'',
        ''    _rlm_finished = True'',
        ''    print(f\"__RLM_FINAL_START__\")'',
        ''    print(_rlm_final_result)'',
        ''    print(f\"__RLM_FINAL_END__\")'',
        '''',
        ''def FINAL_VAR(var_name: str) -> None:'',
        ''    \"\"\"Return variable value as final result.\"\"\"'',
        ''    global _rlm_final_result, _rlm_finished'',
        ''    _rlm_final_result = str(eval(var_name))'',
        ''    _rlm_finished = True'',
        ''    print(f\"__RLM_FINAL_START__\")'',
        ''    print(_rlm_final_result)'',
        ''    print(f\"__RLM_FINAL_END__\")'',
        '''',
        ''print(\"RLM runtime initialized\")'',
        ''print(f\"Context length: {len(context)} chars\")'',
        '''']"

text \<open>The cache preamble the E2B client puts in front of the program after a pending
  call has been resolved: the cache is taken from \<open>__builtins__\<close> (where the previous
  preamble left it), the new entries are added, and both stubs are redefined to look the
  prompt up first.\<close>

definition e2b_cacheHead :: string where
  "e2b_cacheHead =
     join_lines
      ['''',
        ''import json'',
        ''_llm_cache = getattr(__builtins__, '_llm_cache', {}) if hasattr(__builtins__, '_llm_cache') else {}'',
        '''']"

definition e2b_batchStubs :: string where
  "e2b_batchStubs =
     join_lines
      ['''',
        ''__builtins__._llm_cache = _llm_cache'',
        '''',
        ''def llm_query(prompt: str) -> str:'',
        ''    if prompt in _llm_cache:'',
        ''        return _llm_cache[prompt]'',
        ''    print(f\"__LLM_QUERY_START__\")'',
        ''    print(prompt)'',
        ''    print(f\"__LLM_QUERY_END__\")'',
        ''    raise RuntimeError(\"LLM_QUERY_PENDING\")'',
        '''',
        ''def llm_query_batch(prompts: list) -> list:'',
        ''    # check if all cached'',
        ''    results = []'',
        ''    missing = []'',
        ''    for p in prompts:'',
        ''        if p in _llm_cache:'',
        ''            results.append(_llm_cache[p])'',
        ''        else:'',
        ''            missing.append(p)'',
        ''    if missing:'',
        ''        print(f\"__LLM_BATCH_START__\")'',
        ''        print(json.dumps(missing))'',
        ''        print(f\"__LLM_BATCH_END__\")'',
        ''        raise RuntimeError(\"LLM_BATCH_PENDING\")'',
        ''    return results'',
        '''',
        '''']"

definition e2b_singleStubs :: string where
  "e2b_singleStubs =
     join_lines
      ['''',
        ''__builtins__._llm_cache = _llm_cache'',
        '''',
        ''def llm_query(prompt: str) -> str:'',
        ''    if prompt in _llm_cache:'',
        ''        return _llm_cache[prompt]'',
        ''    print(f\"__LLM_QUERY_START__\")'',
        ''    print(prompt)'',
        ''    print(f\"__LLM_QUERY_END__\")'',
        ''    raise RuntimeError(\"LLM_QUERY_PENDING\")'',
        '''',
        ''def llm_query_batch(prompts: list) -> list:'',
        ''    results = []'',
        ''    missing = []'',
        ''    for p in prompts:'',
        ''        if p in _llm_cache:'',
        ''            results.append(_llm_cache[p])'',
        ''        else:'',
        ''            missing.append(p)'',
        ''    if missing:'',
        ''        print(f\"__LLM_BATCH_START__\")'',
        ''        print(json.dumps(missing))'',
        ''        print(f\"__LLM_BATCH_END__\")'',
        ''        raise RuntimeError(\"LLM_BATCH_PENDING\")'',
        ''    return results'',
        '''',
        '''']"

definition e2b_batchCode :: "string list \<Rightarrow> string list \<Rightarrow> string \<Rightarrow> string" where
  "e2b_batchCode prompts responses code =
     e2b_cacheHead @ join_lines (map cacheEntry (zip prompts responses)) @ e2b_batchStubs
     @ code @ [NL]"

definition e2b_singleCode :: "string \<Rightarrow> string \<Rightarrow> string \<Rightarrow> string" where
  "e2b_singleCode pendingQuery llmResponse code =
     e2b_cacheHead @ cacheEntry (pendingQuery, llmResponse) @ e2b_singleStubs @ code @ [NL]"

text \<open>The runtime prefix the Daytona client puts in front of every program;
  \<open>contextLoader\<close> is the statement that binds \<open>context\<close>.\<close>

definition daytona_runtimePrefix :: "string \<Rightarrow> string" where
  "daytona_runtimePrefix contextLoader =
     join_lines
      ['''',
        ''import json'',
        ''import sys'',
        '''',
        '''']
     @ contextLoader @
     join_lines
      ['''',
        '''',
        ''def llm_query(prompt):'',
        ''    if '_llm_cache' in globals() and prompt in _llm_cache:'',
        ''        return _llm_cache[prompt]'',
        ''    print(\"__LLM_QUERY_START__\")'',
        ''    print(prompt)'',
        ''    print(\"__LLM_QUERY_END__\")'',
        ''    sys.exit(42)'',
        '''',
        ''def llm_query_batch(prompts):'',
        ''    if '_llm_cache' in globals():'',
        ''        missing = [p for p in prompts if p not in _llm_cache]'',
        ''        if not missing:'',
        ''            return [_llm_cache[p] for p in prompts]'',
        ''        prompts = missing'',
        ''    print(\"__LLM_BATCH_START__\")'',
        ''    print(json.dumps(prompts))'',
        ''    print(\"__LLM_BATCH_END__\")'',
        ''    sys.exit(43)'',
        '''',
        ''def FINAL(result):'',
        ''    print(\"__RLM_FINAL_START__\")'',
        ''    print(str(result))'',
        ''    print(\"__RLM_FINAL_END__\")'',
        '''',
        '''']"

text \<open>The accumulation of one run's output by the \<open>onStdout\<close> and \<open>onStderr\<close> callbacks.\<close>

fun render_msg :: "OutMsg \<Rightarrow> string" where
  "render_msg (Stdout line) = (if truthy line then the line else []) @ [NL]"
| "render_msg (Stderr line) = ''[stderr] '' @ (if truthy line then the line else []) @ [NL]"

definition e2b_output :: "E2BRun \<Rightarrow> string" where
  "e2b_output run = concat (map render_msg (x_messages run))"

definition e2b_error :: "E2BRun \<Rightarrow> string option" where
  "e2b_error run =
     (case x_completion run of
        Threw msg \<Rightarrow> Some msg
      | Finished None \<Rightarrow> None
      | Finished (Some (name, val)) \<Rightarrow> Some (name @ '': '' @ val))"

text \<open>\<open>output.replace(/__LLM_QUERY_START__|...|__RLM_FINAL_END__/g, '')\<close>: at each position
  the first alternative that matches is removed.\<close>

definition e2b_markers :: "string list" where
  "e2b_markers = [''__LLM_QUERY_START__'', ''__LLM_QUERY_END__'', ''__LLM_BATCH_START__'',
                  ''__LLM_BATCH_END__'', ''__RLM_FINAL_START__'', ''__RLM_FINAL_END__'']"

fun strip_literals :: "string list \<Rightarrow> nat \<Rightarrow> string \<Rightarrow> string" where
  "strip_literals lits k [] = []"
| "strip_literals lits (Suc k) (c # cs) = strip_literals lits k cs"
| "strip_literals lits 0 (c # cs) =
     (case find (\<lambda>l. prefix l (c # cs)) lits of
        None \<Rightarrow> c # strip_literals lits 0 cs
      | Some l \<Rightarrow> strip_literals lits (length l - 1) cs)"

text \<open>The order of the checks in the E2B client: BATCH, then QUERY, then FINAL.\<close>

definition e2b_decode :: "string \<Rightarrow> decoded" where
  "e2b_decode output =
     (case batchMatch output of
        Some g \<Rightarrow> PendingBatch (trim g)
      | None \<Rightarrow>
          (case queryMatch output of
             Some g \<Rightarrow> PendingSingle (trim g)
           | None \<Rightarrow>
               (case finalMatch output of
                  Some g \<Rightarrow> FinalResult (trim g)
                | None \<Rightarrow> NoMarker)))"

fun e2b_createNodes :: "'w env \<Rightarrow> RLMSandbox \<Rightarrow> string list \<Rightarrow> ((string \<times> string) list, 'w) eff" where
  "e2b_createNodes env sb [] = retE []"
| "e2b_createNodes env sb (prompt # ps) =
     bindE (quietE (nanoid env)) (\<lambda>childNodeId.
     bindE (quietE (dateNow env)) (\<lambda>now.
     bindE (emitE (NodeCreated (newChildNode sb childNodeId prompt now))) (\<lambda>_.
     bindE (emitE (NodeLlmStart childNodeId prompt)) (\<lambda>_.
     bindE (e2b_createNodes env sb ps) (\<lambda>rest.
     retE ((childNodeId, prompt) # rest))))))"

fun e2b_resolveAll :: "'w handler \<Rightarrow> (string \<times> string) list \<Rightarrow> (string list, 'w) eff" where
  "e2b_resolveAll llmQueryHandler [] = retE []"
| "e2b_resolveAll llmQueryHandler ((nodeId, prompt) # rest) =
     bindE (llmQueryHandler prompt nodeId) (\<lambda>response.
     bindE (emitE (NodeLlmEnd nodeId response)) (\<lambda>_.
     bindE (emitE (NodeStatus nodeId Completed)) (\<lambda>_.
     bindE (e2b_resolveAll llmQueryHandler rest) (\<lambda>responses.
     retE (response # responses)))))"

function e2b_batches ::
  "'w env \<Rightarrow> RLMSandbox \<Rightarrow> 'w handler \<Rightarrow> string list \<Rightarrow> nat \<Rightarrow> string list \<Rightarrow> (string list, 'w) eff" where
  "e2b_batches env sb llmQueryHandler prompts i responses =
     (if i < length prompts then
        bindE (e2b_createNodes env sb (take 10 (drop i prompts))) (\<lambda>batch.
        bindE (e2b_resolveAll llmQueryHandler batch) (\<lambda>batchResponses.
        bindE (emitE (NodeOutput (sb_parentNodeId sb)
                 (''Completed '' @ show_nat (min (i + 10) (length prompts)) @ ''/''
                  @ show_nat (length prompts)))) (\<lambda>_.
        bindE (whenE (i + 10 < length prompts)
                 (emitE (NodeOutput (sb_parentNodeId sb) ''Cooling down 2000ms...''))) (\<lambda>_.
        e2b_batches env sb llmQueryHandler prompts (i + 10) (responses @ batchResponses)))))
      else retE responses)"
  by pat_completeness auto
termination
  by (relation "measure (\<lambda>(env, sb, h, prompts, i, responses). length prompts - i)") auto

definition pending_error :: "string option \<Rightarrow> bool" where
  "pending_error err =
     (case err of
        None \<Rightarrow> False
      | Some e \<Rightarrow> str_includes e ''LLM_QUERY_PENDING'' \<or> str_includes e ''LLM_BATCH_PENDING'')"

text \<open>The body of the \<open>while\<close> loop, after \<open>iteration++\<close>. The counter \<open>queryCounter\<close> is
  written and never read; it is left out.\<close>

definition e2b_iteration ::
  "'w env \<Rightarrow> RLMSandbox \<Rightarrow> string \<Rightarrow> 'w handler \<Rightarrow> string \<Rightarrow> string \<Rightarrow> (iter, 'w) eff" where
  "e2b_iteration env sb code llmQueryHandler fullOutput currentCode =
     bindE (askE (CallRunCode currentCode) (runCode env (the (sb_sandbox sb)) currentCode)) (\<lambda>run.
     (let output = e2b_output run;
          err = e2b_error run;
          fullOutput' = fullOutput @ output in
      bindE (whenE (trim output \<noteq> [] \<and> \<not> str_includes output ''__LLM_QUERY_''
                      \<and> \<not> str_includes output ''__LLM_BATCH_'')
               (emitE (NodeOutput (sb_parentNodeId sb)
                  (trim (strip_literals e2b_markers 0 output))))) (\<lambda>_.
      case e2b_decode output of
        PendingBatch payload \<Rightarrow>
          (case jsonParse env payload of
             Inl msg \<Rightarrow> throwE msg
           | Inr prompts \<Rightarrow>
               bindE (emitE (NodeOutput (sb_parentNodeId sb)
                        (''Processing '' @ show_nat (length prompts)
                         @ '' queries (10 at a time, throttled)...''))) (\<lambda>_.
               bindE (e2b_batches env sb llmQueryHandler prompts 0 []) (\<lambda>responses.
               retE (Continue fullOutput' (e2b_batchCode prompts responses code)))))
      | PendingSingle pendingQuery \<Rightarrow>
          bindE (quietE (nanoid env)) (\<lambda>childNodeId.
          bindE (quietE (dateNow env)) (\<lambda>now.
          bindE (emitE (NodeCreated (newChildNode sb childNodeId pendingQuery now))) (\<lambda>_.
          bindE (emitE (NodeLlmStart childNodeId pendingQuery)) (\<lambda>_.
          bindE (llmQueryHandler pendingQuery childNodeId) (\<lambda>llmResponse.
          bindE (emitE (NodeLlmEnd childNodeId llmResponse)) (\<lambda>_.
          bindE (emitE (NodeStatus childNodeId Completed)) (\<lambda>_.
          retE (Continue fullOutput' (e2b_singleCode pendingQuery llmResponse code)))))))))
      | FinalResult fin \<Rightarrow>
          retE (Return \<lparr> r_success = True, r_output = fullOutput',
                         r_error = None, r_finalResult = Some fin \<rparr>)
      | NoMarker \<Rightarrow>
          (if pending_error err then retE (Continue fullOutput' currentCode)
           else if truthy err then
             bindE (emitE (NodeError (sb_parentNodeId sb) (the err))) (\<lambda>_.
             retE (Return \<lparr> r_success = False, r_output = fullOutput',
                            r_error = err, r_finalResult = None \<rparr>))
           else
             retE (Return \<lparr> r_success = True, r_output = fullOutput', r_error = None,
                            r_finalResult =
                              Some (if trim fullOutput' \<noteq> [] then trim fullOutput'
                                    else ''Execution completed (no FINAL() called)'') \<rparr>)))))"

function e2b_loop ::
  "'w env \<Rightarrow> RLMSandbox \<Rightarrow> string \<Rightarrow> 'w handler \<Rightarrow> nat \<Rightarrow> string \<Rightarrow> string
     \<Rightarrow> (ExecutionResult \<times> nat, 'w) eff" where
  "e2b_loop env sb code llmQueryHandler iteration fullOutput currentCode =
     (if iteration < 100 then
        bindE (e2b_iteration env sb code llmQueryHandler fullOutput currentCode) (\<lambda>it.
        case it of
          Continue fullOutput' currentCode' \<Rightarrow>
            e2b_loop env sb code llmQueryHandler (iteration + 1) fullOutput' currentCode'
        | Return res \<Rightarrow> retE (res, iteration + 1))
      else retE (\<lparr> r_success = False, r_output = fullOutput,
                   r_error = Some ''Max iterations exceeded'', r_finalResult = None \<rparr>, iteration))"
  by pat_completeness auto
termination
  by (relation "measure (\<lambda>(env, sb, code, h, iteration, fo, cc). 100 - iteration)") auto

definition e2b_executeWithLlmSupport ::
  "'w env \<Rightarrow> RLMSandbox \<Rightarrow> string \<Rightarrow> 'w handler \<Rightarrow> (ExecutionResult \<times> nat, 'w) eff" where
  "e2b_executeWithLlmSupport env sb code llmQueryHandler =
     (if sb_sandbox sb = None then throwE ''Sandbox not initialized''
      else e2b_loop env sb code llmQueryHandler 0 [] code)"

definition e2b_createRLMSandbox ::
  "'w env \<Rightarrow> string \<Rightarrow> string \<Rightarrow> string \<Rightarrow> int \<Rightarrow> (RLMSandbox, 'w) eff" where
  "e2b_createRLMSandbox env parentNodeId contextId ctx currentDepth =
     bindE (callE (CallCreateSandbox parentNodeId currentDepth) (sandboxCreate env)) (\<lambda>h.
     bindE (askE (CallRunCode (e2b_runtimeCode ctx)) (runCode env h (e2b_runtimeCode ctx))) (\<lambda>run.
     case x_completion run of
       Threw msg \<Rightarrow> throwE msg
     | Finished e \<Rightarrow>
         retE \<lparr> sb_sandbox = Some h, sb_parentNodeId = parentNodeId, sb_contextId = contextId,
                sb_currentDepth = currentDepth, sb_runtimePrefix = [] \<rparr>))"

definition e2b_close :: "'w env \<Rightarrow> RLMSandbox \<Rightarrow> (unit, 'w) eff" where
  "e2b_close env sb =
     (case sb_sandbox sb of
        None \<Rightarrow> retE ()
      | Some h \<Rightarrow> callE CallCloseSandbox (sandboxKill env h))"

section \<open>The execute route (app/api/rlm/execute/route.ts)\<close>

text \<open>\<open>s.split('\n')\<close>.\<close>

fun split_nl :: "string \<Rightarrow> string list" where
  "split_nl [] = [[]]"
| "split_nl (c # cs) =
     (if c = NL then [] # split_nl cs
      else (case split_nl cs of
              [] \<Rightarrow> [[c]]
            | l # ls \<Rightarrow> (c # l) # ls))"

definition codeStartLine :: "string \<Rightarrow> bool" where
  "codeStartLine line =
     (prefix ''import '' line \<or> prefix ''from '' line \<or> prefix ''#'' line
      \<or> prefix ''context'' line \<or> prefix ''def '' line \<or> prefix ''for '' line
      \<or> prefix ''while '' line)"

definition extractPythonCode :: "string \<Rightarrow> string" where
  "extractPythonCode txt =
     (case match_group (''```python'' @ [NL]) ''```'' txt of
        Some g \<Rightarrow> trim g
      | None \<Rightarrow>
          (case match_group (''```'' @ [NL]) ''```'' txt of
             Some g \<Rightarrow> trim g
           | None \<Rightarrow>
               (case dropWhile (\<lambda>l. \<not> codeStartLine l) (split_nl txt) of
                  [] \<Rightarrow> trim txt
                | l # ls \<Rightarrow> trim (join_lines (l # ls)))))"

definition RLM_SUB_PROMPT :: string where
  "RLM_SUB_PROMPT = ''You are a helpful assistant. Answer the question based on the provided context. Be concise and accurate.''"

text \<open>\<open>buildRLMPrompt\<close>; \<open>systemPrompt env\<close> is the constant \<open>RLM_SYSTEM_PROMPT\<close>.\<close>

definition buildRLMPrompt :: "'w env \<Rightarrow> string \<Rightarrow> string" where
  "buildRLMPrompt env query =
     systemPrompt env @ join_lines
       ['''', '''', ''## User Query'', query, '''', ''## REMINDER'',
        ''Your code MUST call llm_query() multiple times. A solution without llm_query() is INVALID.'',
        '''',
        ''Write Python code that loops through data and calls llm_query() for each check:'']"

record RLMExecuteRequest =
  rq_query :: string
  rq_context :: string
  rq_contextId :: "string option"
  rq_maxDepth :: "int option"

definition rootPrompt :: "'w env \<Rightarrow> string \<Rightarrow> string \<Rightarrow> int \<Rightarrow> string" where
  "rootPrompt env query ctx maxDepth =
     buildRLMPrompt env query @ join_lines
       ['''', '''', ''## Context Preview (first 5000 chars)'', ''```'', take 5000 ctx, ''```'', '''',
        ''## Full Context Stats'',
        ''- Total length: '' @ show_nat (length ctx) @ '' characters'',
        ''- Total lines: '' @ show_nat (length (split_nl ctx)),
        ''- Max recursion depth: '' @ show_int maxDepth @ '' (sub-agents ''
          @ (if maxDepth > 1 then ''CAN'' else ''cannot'') @ '' spawn their own sub-agents)'',
        '''',
        ''Now write Python code to solve the query. Remember: the full context is available as the `context` variable.'']"

definition subAgentPrompt :: "'w env \<Rightarrow> string \<Rightarrow> int \<Rightarrow> int \<Rightarrow> string" where
  "subAgentPrompt env subPrompt childDepth maxDepth =
     buildRLMPrompt env subPrompt @ join_lines
       ['''', '''', ''## Sub-agent Context'',
        ''You are a sub-agent at depth '' @ show_int childDepth @ ''/'' @ show_int maxDepth @ ''.'',
        ''You CAN spawn your own sub-agents using llm_query() or llm_query_batch().'',
        ''The context variable contains: '' @ take 500 subPrompt @ ''...'',
        '''',
        ''Write Python code to solve this and call FINAL() with your answer.'']"

definition depthNote :: "int \<Rightarrow> string \<Rightarrow> string" where
  "depthNote childDepth msg = ''[depth '' @ show_int childDepth @ ''] '' @ msg"

text \<open>The answer at maximum depth: one completion call with the fixed system instruction;
  its text is the response.\<close>

definition leafAnswer :: "'w env \<Rightarrow> int \<Rightarrow> 'w handler" where
  "leafAnswer env childDepth = (\<lambda>subPrompt childNodeId.
     bindE (emitE (NodeOutput childNodeId
              (depthNote childDepth ''Max depth reached, answering directly...''))) (\<lambda>_.
     callE (CallGenerateText \<lparr> g_system = Some RLM_SUB_PROMPT, g_prompt = subPrompt,
                               g_maxOutputTokens = 4096, g_thinkingBudget = None \<rparr>)
           (generateText env \<lparr> g_system = Some RLM_SUB_PROMPT, g_prompt = subPrompt,
                                g_maxOutputTokens = 4096, g_thinkingBudget = None \<rparr>)))"

definition subAgentResponse :: "ExecutionResult \<Rightarrow> string" where
  "subAgentResponse res =
     ''[Code executed]'' @ NL #
       (if truthy (r_finalResult res) then the (r_finalResult res)
        else if r_output res \<noteq> [] then r_output res
        else ''No result'')"

text \<open>\<open>createLlmHandler(currentDepth)\<close>: below the maximum depth the handler has code
  written for the prompt and runs it in a sandbox of its own, with
  \<open>createLlmHandler(childDepth)\<close> as that run's handler.\<close>

function createLlmHandler :: "'w env \<Rightarrow> int \<Rightarrow> string \<Rightarrow> int \<Rightarrow> 'w handler" where
  "createLlmHandler env maxDepth rootContextId currentDepth =
     (if currentDepth + 1 < maxDepth then
        (\<lambda>subPrompt childNodeId.
          bindE (emitE (NodeOutput childNodeId
                   (depthNote (currentDepth + 1) ''Generating Python code (can spawn sub-agents)...''))) (\<lambda>_.
          bindE (callE (CallGenerateText
                          \<lparr> g_system = None,
                            g_prompt = subAgentPrompt env subPrompt (currentDepth + 1) maxDepth,
                            g_maxOutputTokens = 4096, g_thinkingBudget = None \<rparr>)
                   (generateText env
                          \<lparr> g_system = None,
                            g_prompt = subAgentPrompt env subPrompt (currentDepth + 1) maxDepth,
                            g_maxOutputTokens = 4096, g_thinkingBudget = None \<rparr>)) (\<lambda>subText.
          bindE (emitE (NodeOutput childNodeId
                   (depthNote (currentDepth + 1)
                      (''Generated '' @ show_nat (length (split_nl (extractPythonCode subText)))
                       @ '' lines, creating sandbox...'')))) (\<lambda>_.
          bindE (e2b_createRLMSandbox env childNodeId rootContextId subPrompt (currentDepth + 1))
            (\<lambda>subSandbox.
          finallyE
            (bindE (emitE (NodeOutput childNodeId
                      (depthNote (currentDepth + 1) ''Executing code in sandbox...''))) (\<lambda>_.
             bindE (e2b_executeWithLlmSupport env subSandbox (extractPythonCode subText)
                      (createLlmHandler env maxDepth rootContextId (currentDepth + 1)))
               (\<lambda>subExecResult.
             bindE (emitE (NodeOutput childNodeId
                      (depthNote (currentDepth + 1) ''Execution complete''))) (\<lambda>_.
             retE (subAgentResponse (fst subExecResult))))))
            (e2b_close env subSandbox))))))
      else leafAnswer env (currentDepth + 1))"
  by pat_completeness auto
termination
  by (relation "measure (\<lambda>(env, maxDepth, ctx, currentDepth). nat (maxDepth - currentDepth))") auto

definition rootNode :: "string \<Rightarrow> string \<Rightarrow> int \<Rightarrow> RLMNode" where
  "rootNode rootNodeId rootContextId now =
     \<lparr> n_id = rootNodeId, n_parentId = None, n_depth = 0, n_status = Executing,
       n_code = [], n_output = [], n_error = None, n_llmPrompt = None, n_llmResponse = None,
       n_contextId = rootContextId, n_startedAt = now, n_completedAt = None \<rparr>"

definition requestMaxDepth :: "RLMExecuteRequest \<Rightarrow> int" where
  "requestMaxDepth req = (case rq_maxDepth req of None \<Rightarrow> 1 | Some d \<Rightarrow> d)"

text \<open>What the route does with the result of the root execution.\<close>

definition reportResult ::
  "'w env \<Rightarrow> RLMExecuteRequest \<Rightarrow> string \<Rightarrow> string \<Rightarrow> string \<Rightarrow> ExecutionResult \<Rightarrow> (unit, 'w) eff" where
  "reportResult env req rootContextId rootNodeId generatedCode res =
     (if truthy (r_finalResult res) then
        bindE (emitE (NodeStatus rootNodeId Completed)) (\<lambda>_.
        bindE (emitE (ExecutionComplete (the (r_finalResult res)))) (\<lambda>_.
        callE (CallAppend (the (r_finalResult res)))
              (ucAppend env (rootContextId, rq_query req, generatedCode, r_output res,
                             the (r_finalResult res)))))
      else if truthy (r_error res) then
        bindE (emitE (NodeStatus rootNodeId Errored)) (\<lambda>_.
        emitE (ExecutionError (the (r_error res))))
      else
        bindE (emitE (NodeStatus rootNodeId Completed)) (\<lambda>_.
        emitE (ExecutionComplete
                 (if r_output res \<noteq> [] then r_output res
                  else ''Execution completed (no FINAL() called)''))))"

text \<open>The stream's \<open>start\<close> function: everything it sends, up to \<open>controller.close()\<close>.\<close>

definition streamStart :: "'w env \<Rightarrow> RLMExecuteRequest \<Rightarrow> string \<Rightarrow> (unit, 'w) eff" where
  "streamStart env req rootContextId =
     catchE
       (bindE (quietE (nanoid env)) (\<lambda>rootNodeId.
        bindE (quietE (dateNow env)) (\<lambda>now.
        bindE (emitE (NodeCreated (rootNode rootNodeId rootContextId now))) (\<lambda>_.
        bindE (emitE (NodeStatus rootNodeId LlmCalling)) (\<lambda>_.
        bindE (emitE (NodeLlmStart rootNodeId (rq_query req))) (\<lambda>_.
        bindE (callE (CallGenerateText
                        \<lparr> g_system = None,
                          g_prompt = rootPrompt env (rq_query req) (rq_context req) (requestMaxDepth req),
                          g_maxOutputTokens = 8192, g_thinkingBudget = Some 8000 \<rparr>)
                 (generateText env
                        \<lparr> g_system = None,
                          g_prompt = rootPrompt env (rq_query req) (rq_context req) (requestMaxDepth req),
                          g_maxOutputTokens = 8192, g_thinkingBudget = Some 8000 \<rparr>)) (\<lambda>llmText.
        bindE (emitE (NodeLlmEnd rootNodeId (extractPythonCode llmText))) (\<lambda>_.
        bindE (emitE (NodeStatus rootNodeId Executing)) (\<lambda>_.
        bindE (e2b_createRLMSandbox env rootNodeId rootContextId (rq_context req) 0) (\<lambda>sandbox.
        finallyE
          (bindE (e2b_executeWithLlmSupport env sandbox (extractPythonCode llmText)
                    (createLlmHandler env (requestMaxDepth req) rootContextId 0)) (\<lambda>result.
           reportResult env req rootContextId rootNodeId (extractPythonCode llmText) (fst result)))
          (e2b_close env sandbox)))))))))))
       (\<lambda>errorMsg. emitE (ExecutionError errorMsg))"

text \<open>\<open>POST\<close>: the steps before the stream exists throw to the caller; then the stream
  runs.\<close>

definition POST :: "'w env \<Rightarrow> RLMExecuteRequest \<Rightarrow> (unit, 'w) eff" where
  "POST env req =
     (if \<not> truthy (apiKey env) then throwE ''Missing ULTRACONTEXT_API_KEY''
      else
        bindE (if truthy (rq_contextId req) then retE (the (rq_contextId req))
               else callE (CallCreateContext (''RLM: '' @ take 30 (rq_query req) @ ''...''))
                          (ucCreate env (''RLM: '' @ take 30 (rq_query req) @ ''...''))) (\<lambda>rootContextId.
        streamStart env req rootContextId))"

section \<open>The Python stubs of the sandbox runtime\<close>

text \<open>
  The stubs are Python functions inside the runtime texts above. Their behaviour is
  modelled on the value of \<open>_llm_cache\<close>, a dictionary from prompt to response: a stub
  either returns a value or halts the program after printing a marker block.
  \<open>print(x)\<close> writes \<open>x\<close> and a line break; \<open>dumps\<close> stands for \<open>json.dumps\<close>.
\<close>

datatype 'a py =
    PyReturn 'a
  | PyExit string int
  | PyRaise string string

definition queryBlock :: "string \<Rightarrow> string" where
  "queryBlock prompt =
     ''__LLM_QUERY_START__'' @ NL # prompt @ NL # ''__LLM_QUERY_END__'' @ [NL]"

definition batchBlock :: "string \<Rightarrow> string" where
  "batchBlock payload =
     ''__LLM_BATCH_START__'' @ NL # payload @ NL # ''__LLM_BATCH_END__'' @ [NL]"

text \<open>The Daytona runtime prefix; the cache is \<open>None\<close> while \<open>_llm_cache\<close> is not a
  global.\<close>

definition daytona_llm_query :: "(string \<rightharpoonup> string) option \<Rightarrow> string \<Rightarrow> string py" where
  "daytona_llm_query cache prompt =
     (case cache of
        None \<Rightarrow> PyExit (queryBlock prompt) 42
      | Some c \<Rightarrow>
          (case c prompt of
             Some r \<Rightarrow> PyReturn r
           | None \<Rightarrow> PyExit (queryBlock prompt) 42))"





text \<open>The E2B runtime: the first stubs always halt; the stubs of the cache preamble look
  the prompt up. The preamble adds its entries to the dictionary the previous preamble
  left in \<open>__builtins__\<close> (the empty one at first).\<close>

definition e2b_initial_llm_query :: "string \<Rightarrow> string py" where
  "e2b_initial_llm_query prompt = PyRaise (queryBlock prompt) ''LLM_QUERY_PENDING''"

definition e2b_initial_llm_query_batch :: "(string list \<Rightarrow> string) \<Rightarrow> string list \<Rightarrow> string list py" where
  "e2b_initial_llm_query_batch dumps prompts =
     PyRaise (batchBlock (dumps prompts)) ''LLM_BATCH_PENDING''"





section \<open>Projections and example data\<close>

definition resultE :: "('a, 'w) eff \<Rightarrow> 'w \<Rightarrow> string + 'a" where
  "resultE m w = fst (m w)"

definition traceE :: "('a, 'w) eff \<Rightarrow> 'w \<Rightarrow> action list" where
  "traceE m w = fst (snd (m w))"

definition worldE :: "('a, 'w) eff \<Rightarrow> 'w \<Rightarrow> 'w" where
  "worldE m w = snd (snd (m w))"

text \<open>A small world for examples: the state is a counter, ids are \<open>n0\<close>, \<open>n1\<close>, ..., every
  Daytona run returns \<open>drun\<close>, every E2B run returns \<open>erun\<close>, every completion returns
  \<open>gen\<close>, and persistence answers \<open>app\<close>.\<close>

definition exampleEnv ::
  "DaytonaRun \<Rightarrow> E2BRun \<Rightarrow> string + string \<Rightarrow> string + unit \<Rightarrow> int env" where
  "exampleEnv drun erun gen app =
     \<lparr> generateText = (\<lambda>rq w. (gen, w)),
       nanoid = (\<lambda>w. (CHR ''n'' # show_int w, w + 1)),
       dateNow = (\<lambda>w. (w, w)),
       jsonParse = (\<lambda>s. if s = ''[]'' then Inr [] else Inl ''SyntaxError''),
       codeRun = (\<lambda>c w. (drun, w)),
       sandboxCreate = (\<lambda>w. (Inr (nat w), w)),
       runCode = (\<lambda>h c w. (erun, w)),
       sandboxKill = (\<lambda>h w. (Inr (), w)),
       ucAppend = (\<lambda>x w. (app, w)),
       ucCreate = (\<lambda>x w. (Inr ''ctx'', w)),
       apiKey = Some ''key'',
       systemPrompt = ''SYS'' \<rparr>"

definition exampleSandbox :: RLMSandbox where
  "exampleSandbox =
     \<lparr> sb_sandbox = Some 0, sb_parentNodeId = ''root'', sb_contextId = ''ctx'',
       sb_currentDepth = 0, sb_runtimePrefix = ''PREFIX'' \<rparr>"


definition exampleRequest :: RLMExecuteRequest where
  "exampleRequest = \<lparr> rq_query = ''count pairs'', rq_context = ''P1: 1,2'',
                       rq_contextId = Some ''ctx'', rq_maxDepth = None \<rparr>"

definition node0 :: RLMNode where
  "node0 = \<lparr> n_id = ''root'', n_parentId = None, n_depth = 0, n_status = Executing,
     n_code = [], n_output = [], n_error = None, n_llmPrompt = None, n_llmResponse = None,
     n_contextId = ''ctx'', n_startedAt = 0, n_completedAt = None \<rparr>"

definition exampleHandler :: "int handler" where
  "exampleHandler = (\<lambda>prompt nodeId. retE ''r'')"


definition helloLine :: string where
  "helloLine = ''hello'' @ [NL]"

definition plainRun :: E2BRun where
  "plainRun = \<lparr> x_messages = [Stdout (Some ''hello'')], x_completion = Finished None \<rparr>"

definition silentRun :: E2BRun where
  "silentRun = \<lparr> x_messages = [], x_completion = Finished None \<rparr>"

definition longOutput :: string where
  "longOutput = replicate 500 (CHR ''a'') @ ''Z''"

text \<open>\<open>n\<close> turns in a row that all end in \<open>continue\<close>, from the given \<open>fullOutput\<close>,
  \<open>currentCode\<close> and world; the result is where the next turn would start.\<close>

fun daytona_continues ::
  "'w env \<Rightarrow> RLMSandbox \<Rightarrow> string \<Rightarrow> 'w handler \<Rightarrow> nat \<Rightarrow> string \<Rightarrow> string \<Rightarrow> 'w
     \<Rightarrow> (string \<times> string \<times> 'w) option" where
  "daytona_continues env sb code h 0 fullOutput currentCode w = Some (fullOutput, currentCode, w)"
| "daytona_continues env sb code h (Suc n) fullOutput currentCode w =
     (case resultE (daytona_iteration env sb code h fullOutput currentCode) w of
        Inr (Continue fo cc) \<Rightarrow>
          daytona_continues env sb code h n fo cc
            (worldE (daytona_iteration env sb code h fullOutput currentCode) w)
      | _ \<Rightarrow> None)"

fun e2b_continues ::
  "'w env \<Rightarrow> RLMSandbox \<Rightarrow> string \<Rightarrow> 'w handler \<Rightarrow> nat \<Rightarrow> string \<Rightarrow> string \<Rightarrow> 'w
     \<Rightarrow> (string \<times> string \<times> 'w) option" where
  "e2b_continues env sb code h 0 fullOutput currentCode w = Some (fullOutput, currentCode, w)"
| "e2b_continues env sb code h (Suc n) fullOutput currentCode w =
     (case resultE (e2b_iteration env sb code h fullOutput currentCode) w of
        Inr (Continue fo cc) \<Rightarrow>
          e2b_continues env sb code h n fo cc
            (worldE (e2b_iteration env sb code h fullOutput currentCode) w)
      | _ \<Rightarrow> None)"

definition pendingRun :: DaytonaRun where
  "pendingRun = RunResult (Some (queryBlock ''q'')) None (Some 42)"

definition queryRun :: E2BRun where
  "queryRun =
     \<lparr> x_messages = [Stdout (Some ''__LLM_QUERY_START__''), Stdout (Some ''q''),
                      Stdout (Some ''__LLM_QUERY_END__'')],
       x_completion = Finished (Some (''RuntimeError'', ''LLM_QUERY_PENDING'')) \<rparr>"

definition pendingEnv :: "int env" where
  "pendingEnv = exampleEnv pendingRun queryRun (Inr ''r'') (Inr ())"

definition failingHandler :: "int handler" where
  "failingHandler = (\<lambda>prompt nodeId. throwE ''provider error'')"




definition cons_value :: "char \<Rightarrow> (string \<times> string) option \<Rightarrow> (string \<times> string) option" where
  "cons_value c r = (case r of None \<Rightarrow> None | Some (v, rest) \<Rightarrow> Some (c # v, rest))"



definition strip_prefix :: "string \<Rightarrow> string \<Rightarrow> string option" where
  "strip_prefix p s = (if prefix p s then Some (drop (length p) s) else None)"



definition spacedRun :: DaytonaRun where
  "spacedRun = RunResult (Some (queryBlock '' q '')) None (Some 42)"

definition spacedE2BRun :: E2BRun where
  "spacedE2BRun =
     \<lparr> x_messages = [Stdout (Some ''__LLM_QUERY_START__''), Stdout (Some '' q ''),
                      Stdout (Some ''__LLM_QUERY_END__'')],
       x_completion = Finished (Some (''RuntimeError'', ''LLM_QUERY_PENDING'')) \<rparr>"

definition spacedEnv :: "int env" where
  "spacedEnv = exampleEnv spacedRun spacedE2BRun (Inr ''r'') (Inr ())"

text \<open>
  A complete small run: the model writes the program \<open>print(1)\<close>; its first run asks for
  the prompt \<open>q\<close>; the delegated answer is a text that itself holds a pending-call block;
  the second run, which starts with the cache preamble, prints the final result \<open>1\<close>.
  \<open>app\<close> is what the persistence service answers.
\<close>

definition finalRun :: E2BRun where
  "finalRun =
     \<lparr> x_messages = [Stdout (Some ''__RLM_FINAL_START__''), Stdout (Some ''1''),
                      Stdout (Some ''__RLM_FINAL_END__'')],
       x_completion = Finished None \<rparr>"

definition scenarioEnv :: "string + unit \<Rightarrow> int env" where
  "scenarioEnv app =
     (exampleEnv RunInvalid queryRun (Inr ''r'') app)
       \<lparr> generateText :=
           (\<lambda>rq w. (Inr (if g_system rq = None then ''print(1)'' else queryBlock ''again''), w)),
         runCode := (\<lambda>h c w. (if prefix e2b_cacheHead c then finalRun else queryRun, w)) \<rparr>"

definition scenarioSandbox :: RLMSandbox where
  "scenarioSandbox =
     \<lparr> sb_sandbox = Some 1, sb_parentNodeId = ''n0'', sb_contextId = ''ctx'',
       sb_currentDepth = 0, sb_runtimePrefix = [] \<rparr>"

definition scenarioChild :: RLMNode where
  "scenarioChild = newChildNode scenarioSandbox ''n1'' ''q'' 2"

definition finalBlock :: "string \<Rightarrow> string" where
  "finalBlock res =
     ''__RLM_FINAL_START__'' @ NL # res @ NL # ''__RLM_FINAL_END__'' @ [NL]"

definition scenarioResult :: ExecutionResult where
  "scenarioResult =
     \<lparr> r_success = True,
       r_output = queryBlock ''q'' @ finalBlock ''1'',
       r_error = None, r_finalResult = Some ''1'' \<rparr>"

text \<open>The events of the small run up to the end of \<open>executeWithLlmSupport\<close>.\<close>

definition scenarioEvents :: "RLMEvent list" where
  "scenarioEvents =
     [NodeCreated (rootNode ''n0'' ''ctx'' 1),
      NodeStatus ''n0'' LlmCalling,
      NodeLlmStart ''n0'' ''count pairs'',
      NodeLlmEnd ''n0'' ''print(1)'',
      NodeStatus ''n0'' Executing,
      NodeCreated scenarioChild,
      NodeLlmStart ''n1'' ''q'',
      NodeOutput ''n1'' ''[depth 1] Max depth reached, answering directly...'',
      NodeLlmEnd ''n1'' (queryBlock ''again''),
      NodeStatus ''n1'' Completed,
      NodeOutput ''n0'' ''1'']"

text \<open>The nodes a trace creates, in order, and the condition that each of them hangs
  one level below a node that is known (\<open>known\<close> holds pairs of id and depth) or that the
  same trace creates.\<close>

fun nodes_of :: "action list \<Rightarrow> RLMNode list" where
  "nodes_of [] = []"
| "nodes_of (Emit (NodeCreated node) # tr) = node # nodes_of tr"
| "nodes_of (a # tr) = nodes_of tr"

definition node_key :: "RLMNode \<Rightarrow> string \<times> int" where
  "node_key n = (n_id n, n_depth n)"

definition hangs_below :: "(string \<times> int) set \<Rightarrow> RLMNode \<Rightarrow> bool" where
  "hangs_below known n = (\<exists>p d. (p, d) \<in> known \<and> n_parentId n = Some p \<and> n_depth n = d + 1)"

definition wfS :: "(string \<times> int) set \<Rightarrow> RLMNode list \<Rightarrow> bool" where
  "wfS known ns = (\<forall>n \<in> set ns. hangs_below (known \<union> node_key ` set ns) n)"

definition wfE :: "(string \<times> int) set \<Rightarrow> ('a, 'w) eff \<Rightarrow> bool" where
  "wfE known m = (\<forall>w. wfS known (nodes_of (traceE m w)))"

text \<open>A handler called for a child node at depth \<open>d\<close> creates nodes below that child only.\<close>

definition handler_below :: "'w handler \<Rightarrow> int \<Rightarrow> bool" where
  "handler_below h d = (\<forall>prompt childNodeId. wfE {(childNodeId, d)} (h prompt childNodeId))"

text \<open>The nodes a sequence of events creates, and the part of a node that no event
  changes after its creation.\<close>

fun created_of :: "RLMEvent list \<Rightarrow> RLMNode list" where
  "created_of [] = []"
| "created_of (NodeCreated node # es) = node # created_of es"
| "created_of (e # es) = created_of es"

definition node_shape :: "RLMNode \<Rightarrow> string \<times> string option \<times> int" where
  "node_shape n = (n_id n, n_parentId n, n_depth n)"

text \<open>The two properties of a node list that make it a tree with one root at depth 0.\<close>

definition child_depths_ok :: "RLMNode list \<Rightarrow> bool" where
  "child_depths_ok ns =
     (\<forall>n \<in> set ns. \<forall>p. n_parentId n = Some p \<longrightarrow>
        (\<exists>m \<in> set ns. n_id m = p \<and> n_depth n = n_depth m + 1))"

definition one_root :: "RLMNode list \<Rightarrow> bool" where
  "one_root ns = (\<exists>root. filter (\<lambda>n. n_parentId n = None) ns = [root] \<and> n_depth root = 0)"

definition scenarioStream :: "(int \<times> RLMEvent) list" where
  "scenarioStream =
     map (Pair 0) (events_of (traceE (streamStart (scenarioEnv (Inr ())) exampleRequest ''ctx'') 0))"


section \<open>Basic facts about computations\<close>

declare daytona_loop.simps [simp del] e2b_loop.simps [simp del]
  daytona_batches.simps [simp del] e2b_batches.simps [simp del]
  createLlmHandler.simps [simp del]

lemma bindE_retE [simp]: "bindE (retE x) f = f x"
  by (rule ext) (simp add: bindE_def retE_def split: prod.splits)

lemma bindE_throwE [simp]: "bindE (throwE msg) f = throwE msg"
  by (rule ext) (simp add: bindE_def throwE_def)

lemma whenE_simps [simp]: "whenE True m = m" "whenE False m = retE ()"
  by (simp_all add: whenE_def)

lemma resultE_retE [simp]: "resultE (retE x) w = Inr x"
  and traceE_retE [simp]: "traceE (retE x) w = []"
  and worldE_retE [simp]: "worldE (retE x) w = w"
  by (simp_all add: resultE_def traceE_def worldE_def retE_def)

lemma resultE_throwE [simp]: "resultE (throwE msg) w = Inl msg"
  and traceE_throwE [simp]: "traceE (throwE msg) w = []"
  and worldE_throwE [simp]: "worldE (throwE msg) w = w"
  by (simp_all add: resultE_def traceE_def worldE_def throwE_def)

lemma resultE_emitE [simp]: "resultE (emitE ev) w = Inr ()"
  and traceE_emitE [simp]: "traceE (emitE ev) w = [Emit ev]"
  and worldE_emitE [simp]: "worldE (emitE ev) w = w"
  by (simp_all add: resultE_def traceE_def worldE_def emitE_def)

lemma resultE_askE [simp]: "resultE (askE a oracle) w = Inr (fst (oracle w))"
  and traceE_askE [simp]: "traceE (askE a oracle) w = [a]"
  and worldE_askE [simp]: "worldE (askE a oracle) w = snd (oracle w)"
  by (simp_all add: resultE_def traceE_def worldE_def askE_def split: prod.splits)

lemma resultE_quietE [simp]: "resultE (quietE oracle) w = Inr (fst (oracle w))"
  and traceE_quietE [simp]: "traceE (quietE oracle) w = []"
  and worldE_quietE [simp]: "worldE (quietE oracle) w = snd (oracle w)"
  by (simp_all add: resultE_def traceE_def worldE_def quietE_def split: prod.splits)

lemma resultE_callE [simp]: "resultE (callE a oracle) w = fst (oracle w)"
  and traceE_callE [simp]: "traceE (callE a oracle) w = [a]"
  and worldE_callE [simp]: "worldE (callE a oracle) w = snd (oracle w)"
  by (simp_all add: resultE_def traceE_def worldE_def callE_def split: prod.splits)

lemma resultE_bindE:
  "resultE (bindE m f) w =
     (case resultE m w of Inl msg \<Rightarrow> Inl msg | Inr x \<Rightarrow> resultE (f x) (worldE m w))"
  by (simp add: resultE_def worldE_def bindE_def split: prod.splits sum.splits)

lemma traceE_bindE:
  "traceE (bindE m f) w =
     (case resultE m w of Inl msg \<Rightarrow> traceE m w
      | Inr x \<Rightarrow> traceE m w @ traceE (f x) (worldE m w))"
  by (simp add: resultE_def worldE_def traceE_def bindE_def split: prod.splits sum.splits)

lemma worldE_bindE:
  "worldE (bindE m f) w =
     (case resultE m w of Inl msg \<Rightarrow> worldE m w | Inr x \<Rightarrow> worldE (f x) (worldE m w))"
  by (simp add: resultE_def worldE_def bindE_def split: prod.splits sum.splits)

lemmas projE_bindE = resultE_bindE traceE_bindE worldE_bindE

lemma resultE_whenE [simp]: "resultE (whenE b (emitE ev)) w = Inr ()"
  and worldE_whenE [simp]: "worldE (whenE b (emitE ev)) w = w"
  and traceE_whenE [simp]: "traceE (whenE b (emitE ev)) w = (if b then [Emit ev] else [])"
  by (cases b; simp)+

lemma events_of_append [simp]: "events_of (xs @ ys) = events_of xs @ events_of ys"
  by (induction xs rule: events_of.induct) simp_all

section \<open>Facts about one turn of the loop\<close>

subsection \<open>Classification of the output\<close>




lemma daytona_decode_none:
  "finalMatch output = None \<Longrightarrow> batchMatch output = None \<Longrightarrow> queryMatch output = None \<Longrightarrow>
   daytona_decode output = NoMarker"
  by (simp add: daytona_decode_def)




lemma e2b_decode_none:
  "finalMatch output = None \<Longrightarrow> batchMatch output = None \<Longrightarrow> queryMatch output = None \<Longrightarrow>
   e2b_decode output = NoMarker"
  by (simp add: e2b_decode_def)

subsection \<open>Unfolding the loops\<close>

lemma daytona_loop_result:
  "iteration < 100 \<Longrightarrow>
   resultE (daytona_loop env sb code h iteration fullOutput currentCode) w =
     (case resultE (daytona_iteration env sb code h fullOutput currentCode) w of
        Inl msg \<Rightarrow> Inl msg
      | Inr (Continue fo cc) \<Rightarrow>
          resultE (daytona_loop env sb code h (iteration + 1) fo cc)
            (worldE (daytona_iteration env sb code h fullOutput currentCode) w)
      | Inr (Return res) \<Rightarrow> Inr (res, iteration + 1))"
  by (subst daytona_loop.simps) (simp add: resultE_bindE split: sum.splits iter.splits)

lemma daytona_loop_trace:
  "iteration < 100 \<Longrightarrow>
   traceE (daytona_loop env sb code h iteration fullOutput currentCode) w =
     traceE (daytona_iteration env sb code h fullOutput currentCode) w @
     (case resultE (daytona_iteration env sb code h fullOutput currentCode) w of
        Inl msg \<Rightarrow> []
      | Inr (Continue fo cc) \<Rightarrow>
          traceE (daytona_loop env sb code h (iteration + 1) fo cc)
            (worldE (daytona_iteration env sb code h fullOutput currentCode) w)
      | Inr (Return res) \<Rightarrow> [])"
  by (subst daytona_loop.simps) (simp add: traceE_bindE split: sum.splits iter.splits)

lemma daytona_loop_cap:
  "\<not> iteration < 100 \<Longrightarrow>
   daytona_loop env sb code h iteration fullOutput currentCode =
     retE (\<lparr> r_success = False, r_output = fullOutput,
              r_error = Some ''Max iterations'', r_finalResult = None \<rparr>, iteration)"
  by (subst daytona_loop.simps) simp

lemma e2b_loop_result:
  "iteration < 100 \<Longrightarrow>
   resultE (e2b_loop env sb code h iteration fullOutput currentCode) w =
     (case resultE (e2b_iteration env sb code h fullOutput currentCode) w of
        Inl msg \<Rightarrow> Inl msg
      | Inr (Continue fo cc) \<Rightarrow>
          resultE (e2b_loop env sb code h (iteration + 1) fo cc)
            (worldE (e2b_iteration env sb code h fullOutput currentCode) w)
      | Inr (Return res) \<Rightarrow> Inr (res, iteration + 1))"
  by (subst e2b_loop.simps) (simp add: resultE_bindE split: sum.splits iter.splits)

lemma e2b_loop_trace:
  "iteration < 100 \<Longrightarrow>
   traceE (e2b_loop env sb code h iteration fullOutput currentCode) w =
     traceE (e2b_iteration env sb code h fullOutput currentCode) w @
     (case resultE (e2b_iteration env sb code h fullOutput currentCode) w of
        Inl msg \<Rightarrow> []
      | Inr (Continue fo cc) \<Rightarrow>
          traceE (e2b_loop env sb code h (iteration + 1) fo cc)
            (worldE (e2b_iteration env sb code h fullOutput currentCode) w)
      | Inr (Return res) \<Rightarrow> [])"
  by (subst e2b_loop.simps) (simp add: traceE_bindE split: sum.splits iter.splits)

lemma e2b_loop_cap:
  "\<not> iteration < 100 \<Longrightarrow>
   e2b_loop env sb code h iteration fullOutput currentCode =
     retE (\<lparr> r_success = False, r_output = fullOutput,
              r_error = Some ''Max iterations exceeded'', r_finalResult = None \<rparr>, iteration)"
  by (subst e2b_loop.simps) simp

subsection \<open>Single turns\<close>


lemma daytona_iteration_crash:
  assumes "codeRun env (sb_runtimePrefix sb @ currentCode) w = (RunResult res stdout None, w1)"
  shows "resultE (daytona_iteration env sb code h fullOutput currentCode) w =
           Inr (Return (daytona_crashed fullOutput (run_output res stdout)))"
    and "traceE (daytona_iteration env sb code h fullOutput currentCode) w =
           [CallRunCode (sb_runtimePrefix sb @ currentCode)]"
  using assms
  by (simp_all add: daytona_iteration_def projE_bindE Let_def)

lemma daytona_iteration_clean:
  assumes "codeRun env (sb_runtimePrefix sb @ currentCode) w = (RunResult res stdout (Some 0), w1)"
    and "daytona_decode (run_output res stdout) = NoMarker"
  shows "resultE (daytona_iteration env sb code h fullOutput currentCode) w =
           Inr (Return \<lparr> r_success = True, r_output = fullOutput @ run_output res stdout,
                  r_error = None,
                  r_finalResult = Some (if trim (fullOutput @ run_output res stdout) \<noteq> []
                                        then trim (fullOutput @ run_output res stdout)
                                        else ''Done'') \<rparr>)"
    and "events_of (traceE (daytona_iteration env sb code h fullOutput currentCode) w) =
           (if trim (strip_markers 0 (run_output res stdout)) \<noteq> []
               \<and> \<not> str_includes (run_output res stdout) ''__LLM_''
            then [NodeOutput (sb_parentNodeId sb) (trim (strip_markers 0 (run_output res stdout)))]
            else [])"
  using assms
  by (simp_all add: daytona_iteration_def projE_bindE Let_def)

lemma pending_error_truthy: "pending_error err \<Longrightarrow> truthy err"
  by (cases err) (auto simp: pending_error_def)

lemma e2b_iteration_clean:
  assumes "runCode env (the (sb_sandbox sb)) currentCode w = (run, w1)"
    and "\<not> truthy (e2b_error run)"
    and "e2b_decode (e2b_output run) = NoMarker"
  shows "resultE (e2b_iteration env sb code h fullOutput currentCode) w =
           Inr (Return \<lparr> r_success = True, r_output = fullOutput @ e2b_output run,
                  r_error = None,
                  r_finalResult = Some (if trim (fullOutput @ e2b_output run) \<noteq> []
                                        then trim (fullOutput @ e2b_output run)
                                        else ''Execution completed (no FINAL() called)'') \<rparr>)"
    and "events_of (traceE (e2b_iteration env sb code h fullOutput currentCode) w) =
           (if trim (e2b_output run) \<noteq> [] \<and> \<not> str_includes (e2b_output run) ''__LLM_QUERY_''
               \<and> \<not> str_includes (e2b_output run) ''__LLM_BATCH_''
            then [NodeOutput (sb_parentNodeId sb) (trim (strip_literals e2b_markers 0 (e2b_output run)))]
            else [])"
  using assms pending_error_truthy [of "e2b_error run"]
  by (auto simp add: e2b_iteration_def projE_bindE Let_def)

section \<open>The tree-state reducer: aggregate status\<close>

lemma reducer_status_other:
  "\<not> is_created e \<Longrightarrow> \<not> is_terminal_event e \<Longrightarrow> t_status (treeStateReducer now s e) = t_status s"
  by (cases e) simp_all

lemma foldEvents_Nil: "foldEvents s [] = s"
  by (simp add: foldEvents_def)

lemma foldEvents_Cons: "foldEvents s ((now, e) # tes) = foldEvents (treeStateReducer now s e) tes"
  by (simp add: foldEvents_def)

lemma foldEvents_snoc: "foldEvents s (tes @ [(now, e)]) = treeStateReducer now (foldEvents s tes) e"
  by (simp add: foldEvents_def)

lemma reducer_terminal_kept:
  "terminal_status (t_status s) \<Longrightarrow> \<not> is_created e \<Longrightarrow> terminal_status (t_status (treeStateReducer now s e))"
  by (cases e) (simp_all add: terminal_status_def)

lemma fold_terminal_kept:
  "terminal_status (t_status s) \<Longrightarrow> \<forall>te \<in> set tes. \<not> is_created (snd te) \<Longrightarrow>
   terminal_status (t_status (foldEvents s tes))"
proof (induction tes arbitrary: s)
  case Nil
  then show ?case by (simp add: foldEvents_Nil)
next
  case (Cons te tes)
  obtain now e where te: "te = (now, e)" by (cases te)
  from Cons.prems have "terminal_status (t_status (treeStateReducer now s e))"
    by (simp add: te reducer_terminal_kept)
  with Cons show ?case by (simp add: te foldEvents_Cons)
qed

text \<open>
  C8 (amended). Folding events into the tree state: the aggregate status is \<open>running\<close> right
  after every \<open>node:created\<close> event (so in particular after the first one), \<open>completed\<close>
  right after every \<open>execution:complete\<close>, \<open>error\<close> right after every \<open>execution:error\<close>,
  and unchanged by every other event. Hence a terminal status stays terminal over any further
  events among which there is no \<open>node:created\<close>.
\<close>

theorem treeState_status_transitions:
  "t_status (foldEvents s (tes @ [(now, NodeCreated node)])) = Running
   \<and> t_status (foldEvents s (tes @ [(now, ExecutionComplete res)])) = TreeCompleted
   \<and> t_status (foldEvents s (tes @ [(now, ExecutionError err)])) = TreeError
   \<and> (\<not> is_created e \<and> \<not> is_terminal_event e \<longrightarrow>
        t_status (foldEvents s (tes @ [(now, e)])) = t_status (foldEvents s tes))
   \<and> (terminal_status (t_status (foldEvents s tes)) \<and> (\<forall>te \<in> set later. \<not> is_created (snd te)) \<longrightarrow>
        terminal_status (t_status (foldEvents s (tes @ later))))"
proof -
  have "foldEvents s (tes @ later) = foldEvents (foldEvents s tes) later"
    by (simp add: foldEvents_def)
  then show ?thesis
    by (simp add: foldEvents_snoc reducer_status_other fold_terminal_kept)
qed

theorem treeState_status_transitions_witness:
  "terminal_status (t_status (foldEvents createInitialTreeState
       ([(0, NodeCreated node0), (1, ExecutionComplete ''42'')] @ [(2, NodeOutput ''root'' ''late'')])))"
  using treeState_status_transitions [of createInitialTreeState "[(0, NodeCreated node0), (1, ExecutionComplete ''42'')]"
     _ _ _ _ _ "[(2, NodeOutput ''root'' ''late'')]"]
  by (simp add: foldEvents_def terminal_status_def)

text \<open>
  The reducer has no guard on a terminal status: a later \<open>execution:error\<close> replaces
  \<open>completed\<close> by \<open>error\<close>, and a later \<open>node:created\<close> returns the status to \<open>running\<close>.
\<close>

theorem treeState_status_counterexample:
  "t_status (foldEvents createInitialTreeState
       [(0, NodeCreated node0), (1, ExecutionComplete ''42'')]) = TreeCompleted
   \<and> t_status (foldEvents createInitialTreeState
       [(0, NodeCreated node0), (1, ExecutionComplete ''42''), (2, ExecutionError ''append failed'')]) = TreeError
   \<and> t_status (foldEvents createInitialTreeState
       [(0, NodeCreated node0), (1, ExecutionComplete ''42''), (2, NodeCreated (node0 \<lparr> n_id := ''late'' \<rparr>))]) = Running"
  by (simp add: foldEvents_def createInitialTreeState_def)

section \<open>C1: which marker wins\<close>








section \<open>C3: a clean exit without markers is a success\<close>

lemma daytona_loop_clean:
  assumes "iteration < 100"
    and "codeRun env (sb_runtimePrefix sb @ currentCode) w = (RunResult res stdout (Some 0), w1)"
    and "daytona_decode (run_output res stdout) = NoMarker"
  shows "resultE (daytona_loop env sb code h iteration fullOutput currentCode) w =
           Inr (\<lparr> r_success = True, r_output = fullOutput @ run_output res stdout,
                  r_error = None,
                  r_finalResult = Some (if trim (fullOutput @ run_output res stdout) \<noteq> []
                                        then trim (fullOutput @ run_output res stdout)
                                        else ''Done'') \<rparr>, iteration + 1)"
    and "NodeError nid e \<notin> set (events_of (traceE (daytona_loop env sb code h iteration fullOutput currentCode) w))"
  using assms
  by (simp_all add: daytona_loop_result daytona_loop_trace daytona_iteration_clean)

lemma e2b_loop_clean:
  assumes "iteration < 100"
    and "runCode env (the (sb_sandbox sb)) currentCode w = (run, w1)"
    and "\<not> truthy (e2b_error run)"
    and "e2b_decode (e2b_output run) = NoMarker"
  shows "resultE (e2b_loop env sb code h iteration fullOutput currentCode) w =
           Inr (\<lparr> r_success = True, r_output = fullOutput @ e2b_output run,
                  r_error = None,
                  r_finalResult = Some (if trim (fullOutput @ e2b_output run) \<noteq> []
                                        then trim (fullOutput @ e2b_output run)
                                        else ''Execution completed (no FINAL() called)'') \<rparr>,
                iteration + 1)"
    and "NodeError nid e \<notin> set (events_of (traceE (e2b_loop env sb code h iteration fullOutput currentCode) w))"
  using assms
  by (simp_all add: e2b_loop_result e2b_loop_trace e2b_iteration_clean)

text \<open>
  C3. A run that exits cleanly (Daytona: exit status 0; E2B: no error) and whose output
  matches none of the three marker expressions ends the loop with a success: the result is
  the trimmed accumulated output, or the fixed placeholder when that is empty, and no
  \<open>node:error\<close> event is sent.
\<close>

theorem clean_exit_is_success:
  "(iteration < 100
    \<and> codeRun env (sb_runtimePrefix sb @ currentCode) w = (RunResult res stdout (Some 0), w1)
    \<and> finalMatch (run_output res stdout) = None
    \<and> batchMatch (run_output res stdout) = None
    \<and> queryMatch (run_output res stdout) = None \<longrightarrow>
      resultE (daytona_loop env sb code h iteration fullOutput currentCode) w =
        Inr (\<lparr> r_success = True, r_output = fullOutput @ run_output res stdout,
               r_error = None,
               r_finalResult = Some (if trim (fullOutput @ run_output res stdout) \<noteq> []
                                     then trim (fullOutput @ run_output res stdout)
                                     else ''Done'') \<rparr>, iteration + 1)
      \<and> (\<forall>nid e. NodeError nid e \<notin>
             set (events_of (traceE (daytona_loop env sb code h iteration fullOutput currentCode) w))))
   \<and> (iteration < 100
      \<and> runCode env (the (sb_sandbox sb)) currentCode w = (run, w2)
      \<and> \<not> truthy (e2b_error run)
      \<and> finalMatch (e2b_output run) = None
      \<and> batchMatch (e2b_output run) = None
      \<and> queryMatch (e2b_output run) = None \<longrightarrow>
      resultE (e2b_loop env sb code h iteration fullOutput currentCode) w =
        Inr (\<lparr> r_success = True, r_output = fullOutput @ e2b_output run,
               r_error = None,
               r_finalResult = Some (if trim (fullOutput @ e2b_output run) \<noteq> []
                                     then trim (fullOutput @ e2b_output run)
                                     else ''Execution completed (no FINAL() called)'') \<rparr>,
             iteration + 1)
      \<and> (\<forall>nid e. NodeError nid e \<notin>
             set (events_of (traceE (e2b_loop env sb code h iteration fullOutput currentCode) w))))"
  by (simp add: daytona_decode_none e2b_decode_none daytona_loop_clean e2b_loop_clean)

lemma matches_hello:
  "finalMatch helloLine = None" "batchMatch helloLine = None" "queryMatch helloLine = None"
  "finalMatch [] = None" "batchMatch [] = None" "queryMatch [] = None"
  by (simp_all add: finalMatch_def batchMatch_def queryMatch_def match_between_def
      match_group_def helloLine_def)

lemma trim_hello: "trim helloLine = ''hello''" "trim [] = []" "helloLine \<noteq> []"
  by (simp_all add: trim_def is_ws_def helloLine_def)

lemma e2b_output_examples: "e2b_output plainRun = helloLine" "e2b_output silentRun = []"
  "e2b_error plainRun = None" "e2b_error silentRun = None"
  by (simp_all add: e2b_output_def e2b_error_def plainRun_def silentRun_def helloLine_def)

theorem clean_exit_is_success_witness:
  "resultE (daytona_loop (exampleEnv (RunResult (Some helloLine) None (Some 0)) plainRun
              (Inr ''r'') (Inr ())) exampleSandbox ''code'' exampleHandler 0 [] ''code'') 0 =
     Inr (\<lparr> r_success = True, r_output = helloLine, r_error = None,
            r_finalResult = Some ''hello'' \<rparr>, 1)
   \<and> resultE (e2b_loop (exampleEnv (RunResult (Some helloLine) None (Some 0)) silentRun
              (Inr ''r'') (Inr ())) exampleSandbox ''code'' exampleHandler 0 [] ''code'') 0 =
     Inr (\<lparr> r_success = True, r_output = [], r_error = None,
            r_finalResult = Some ''Execution completed (no FINAL() called)'' \<rparr>, 1)"
  using clean_exit_is_success [where iteration = 0
      and env = "exampleEnv (RunResult (Some helloLine) None (Some 0)) silentRun (Inr ''r'') (Inr ())"
      and sb = exampleSandbox and currentCode = "''code''" and w = 0
      and res = "Some helloLine" and stdout = None and ?w1.0 = 0 and code = "''code''"
      and h = exampleHandler and fullOutput = "[]" and run = silentRun and ?w2.0 = 0]
    clean_exit_is_success [where iteration = 0
      and env = "exampleEnv (RunResult (Some helloLine) None (Some 0)) plainRun (Inr ''r'') (Inr ())"
      and sb = exampleSandbox and currentCode = "''code''" and w = 0
      and res = "Some helloLine" and stdout = None and ?w1.0 = 0 and code = "''code''"
      and h = exampleHandler and fullOutput = "[]" and run = plainRun and ?w2.0 = 0]
  by (simp add: exampleEnv_def run_output_def matches_hello trim_hello e2b_output_examples)

section \<open>C6: a run without exit status\<close>

lemma crashed_not_exit_code:
  "r_error (daytona_crashed fullOutput output) \<noteq> Some (''Exit code '' @ rest)"
  by (simp add: daytona_crashed_def)

text \<open>
  C6 (amended). A Daytona run whose result has no exit status ends the loop at once, before
  any marker is looked at, with a failure of its own: no event is sent, the result's output
  is everything captured so far including this run's output, and the error text is
  \<open>Sandbox crashed (no exit code).\<close> followed by the first 500 characters of this run's
  output (or by \<open>No output captured\<close> when there is none). The error text differs from
  that of every non-zero exit, which starts with \<open>Exit code\<close>.
\<close>

theorem crash_is_distinct_failure:
  "(iteration < 100
    \<and> codeRun env (sb_runtimePrefix sb @ currentCode) w = (RunResult res stdout None, w1) \<longrightarrow>
      resultE (daytona_loop env sb code h iteration fullOutput currentCode) w =
        Inr (daytona_crashed fullOutput (run_output res stdout), iteration + 1)
      \<and> events_of (traceE (daytona_loop env sb code h iteration fullOutput currentCode) w) = [])
   \<and> r_success (daytona_crashed fullOutput output) = False
   \<and> r_output (daytona_crashed fullOutput output) = fullOutput @ output
   \<and> r_finalResult (daytona_crashed fullOutput output) = None
   \<and> r_error (daytona_crashed fullOutput output) =
        Some (''Sandbox crashed (no exit code). '' @
              (if output \<noteq> [] then ''Output before crash: '' @ take 500 output
               else ''No output captured''))
   \<and> (\<forall>rest. r_error (daytona_crashed fullOutput output) \<noteq> Some (''Exit code '' @ rest))"
  by (simp add: daytona_loop_result daytona_loop_trace daytona_iteration_crash
      crashed_not_exit_code) (simp add: daytona_crashed_def)

theorem crash_is_distinct_failure_witness:
  "resultE (daytona_loop (exampleEnv (RunResult (Some ''partial'') None None) plainRun
              (Inr ''r'') (Inr ())) exampleSandbox ''code'' exampleHandler 0 ''before '' ''code'') 0 =
     Inr (\<lparr> r_success = False, r_output = ''before partial'',
            r_error = Some ''Sandbox crashed (no exit code). Output before crash: partial'',
            r_finalResult = None \<rparr>, 1)"
  using crash_is_distinct_failure [where iteration = 0
      and env = "exampleEnv (RunResult (Some ''partial'') None None) plainRun (Inr ''r'') (Inr ())"
      and sb = exampleSandbox and currentCode = "''code''" and w = 0
      and res = "Some ''partial''" and stdout = None and ?w1.0 = 0 and code = "''code''"
      and h = exampleHandler and fullOutput = "''before ''"]
  by (simp add: exampleEnv_def run_output_def daytona_crashed_def)

lemma Z_not_in_replicate: "CHR ''Z'' \<notin> set (replicate n (CHR ''a''))"
  by simp

theorem crash_detail_counterexample:
  "resultE (daytona_loop (exampleEnv (RunResult (Some longOutput) None None) plainRun
              (Inr ''r'') (Inr ())) exampleSandbox ''code'' exampleHandler 0 [] ''code'') 0 =
     Inr (\<lparr> r_success = False, r_output = longOutput,
            r_error = Some (''Sandbox crashed (no exit code). Output before crash: ''
                            @ replicate 500 (CHR ''a'')),
            r_finalResult = None \<rparr>, 1)
   \<and> CHR ''Z'' \<in> set longOutput
   \<and> CHR ''Z'' \<notin> set (''Sandbox crashed (no exit code). Output before crash: ''
                            @ replicate 500 (CHR ''a''))"
proof -
  have ne: "longOutput \<noteq> []" by (simp add: longOutput_def)
  have tk: "take 500 longOutput = replicate 500 (CHR ''a'')" by (simp add: longOutput_def)
  have "resultE (daytona_loop (exampleEnv (RunResult (Some longOutput) None None) plainRun
              (Inr ''r'') (Inr ())) exampleSandbox ''code'' exampleHandler 0 [] ''code'') 0 =
        Inr (daytona_crashed [] (run_output (Some longOutput) None), 0 + 1)"
    by (simp add: daytona_loop_result daytona_iteration_crash exampleEnv_def)
  moreover have "daytona_crashed [] (run_output (Some longOutput) None) =
        \<lparr> r_success = False, r_output = longOutput,
            r_error = Some (''Sandbox crashed (no exit code). Output before crash: ''
                            @ replicate 500 (CHR ''a'')),
            r_finalResult = None \<rparr>"
    using ne tk by (simp add: daytona_crashed_def run_output_def)
  moreover have "CHR ''Z'' \<in> set longOutput" by (simp add: longOutput_def)
  ultimately show ?thesis by simp
qed

section \<open>C4: the iteration cap\<close>

lemma daytona_loop_bounds:
  "iteration \<le> 100 \<Longrightarrow>
   resultE (daytona_loop env sb code h iteration fullOutput currentCode) w = Inr (res, n) \<Longrightarrow>
   iteration \<le> n \<and> n \<le> 100"
proof (induction env sb code h iteration fullOutput currentCode arbitrary: w
    rule: daytona_loop.induct)
  case (1 env sb code h iteration fullOutput currentCode)
  show ?case
  proof (cases "iteration < 100")
    case True
    note step = daytona_loop_result [OF True, of env sb code h fullOutput currentCode w]
    show ?thesis
    proof (cases "resultE (daytona_iteration env sb code h fullOutput currentCode) w")
      case (Inl msg)
      with step "1.prems" show ?thesis by simp
    next
      case (Inr it)
      show ?thesis
      proof (cases it)
        case (Continue fo cc)
        with Inr step "1.prems"
        have "resultE (daytona_loop env sb code h (iteration + 1) fo cc)
                (worldE (daytona_iteration env sb code h fullOutput currentCode) w) = Inr (res, n)"
          by simp
        with "1.IH" [OF True] True Continue
        have "iteration + 1 \<le> n \<and> n \<le> 100" by simp
        then show ?thesis by simp
      next
        case (Return r)
        with Inr step "1.prems" True show ?thesis by auto
      qed
    qed
  next
    case False
    with "1.prems" show ?thesis by (simp add: daytona_loop_cap)
  qed
qed

lemma e2b_loop_bounds:
  "iteration \<le> 100 \<Longrightarrow>
   resultE (e2b_loop env sb code h iteration fullOutput currentCode) w = Inr (res, n) \<Longrightarrow>
   iteration \<le> n \<and> n \<le> 100"
proof (induction env sb code h iteration fullOutput currentCode arbitrary: w
    rule: e2b_loop.induct)
  case (1 env sb code h iteration fullOutput currentCode)
  show ?case
  proof (cases "iteration < 100")
    case True
    note step = e2b_loop_result [OF True, of env sb code h fullOutput currentCode w]
    show ?thesis
    proof (cases "resultE (e2b_iteration env sb code h fullOutput currentCode) w")
      case (Inl msg)
      with step "1.prems" show ?thesis by simp
    next
      case (Inr it)
      show ?thesis
      proof (cases it)
        case (Continue fo cc)
        with Inr step "1.prems"
        have "resultE (e2b_loop env sb code h (iteration + 1) fo cc)
                (worldE (e2b_iteration env sb code h fullOutput currentCode) w) = Inr (res, n)"
          by simp
        with "1.IH" [OF True] True Continue
        have "iteration + 1 \<le> n \<and> n \<le> 100" by simp
        then show ?thesis by simp
      next
        case (Return r)
        with Inr step "1.prems" True show ?thesis by auto
      qed
    qed
  next
    case False
    with "1.prems" show ?thesis by (simp add: e2b_loop_cap)
  qed
qed

lemma daytona_loop_bounds_strict:
  assumes "iteration < 100"
    and "resultE (daytona_loop env sb code h iteration fullOutput currentCode) w = Inr (res, n)"
  shows "iteration < n \<and> n \<le> 100"
proof (cases "resultE (daytona_iteration env sb code h fullOutput currentCode) w")
  case (Inl msg)
  with assms show ?thesis by (simp add: daytona_loop_result)
next
  case (Inr it)
  show ?thesis
  proof (cases it)
    case (Continue fo cc)
    with Inr assms
    have "resultE (daytona_loop env sb code h (iteration + 1) fo cc)
            (worldE (daytona_iteration env sb code h fullOutput currentCode) w) = Inr (res, n)"
      by (simp add: daytona_loop_result)
    from daytona_loop_bounds [OF _ this] assms(1) show ?thesis by simp
  next
    case (Return r)
    with Inr assms show ?thesis by (auto simp: daytona_loop_result)
  qed
qed

lemma daytona_continues_loop:
  "daytona_continues env sb code h n fullOutput currentCode w = Some (fo, cc, w') \<Longrightarrow>
   iteration + n \<le> 100 \<Longrightarrow>
   resultE (daytona_loop env sb code h iteration fullOutput currentCode) w =
   resultE (daytona_loop env sb code h (iteration + n) fo cc) w'"
proof (induction n arbitrary: iteration fullOutput currentCode w)
  case 0
  then show ?case by simp
next
  case (Suc n)
  from Suc.prems obtain fo1 cc1 where
    it: "resultE (daytona_iteration env sb code h fullOutput currentCode) w = Inr (Continue fo1 cc1)"
    by (auto split: sum.splits iter.splits)
  with Suc.prems have
    "daytona_continues env sb code h n fo1 cc1
       (worldE (daytona_iteration env sb code h fullOutput currentCode) w) = Some (fo, cc, w')"
    by simp
  with Suc.IH [of fo1 cc1 _ "iteration + 1"] Suc.prems(2)
  have "resultE (daytona_loop env sb code h (iteration + 1) fo1 cc1)
          (worldE (daytona_iteration env sb code h fullOutput currentCode) w) =
        resultE (daytona_loop env sb code h (iteration + 1 + n) fo cc) w'"
    by simp
  moreover from Suc.prems(2) have "iteration < 100" by simp
  ultimately show ?case
    by (simp add: daytona_loop_result it)
qed

lemma e2b_loop_bounds_strict:
  assumes "iteration < 100"
    and "resultE (e2b_loop env sb code h iteration fullOutput currentCode) w = Inr (res, n)"
  shows "iteration < n \<and> n \<le> 100"
proof (cases "resultE (e2b_iteration env sb code h fullOutput currentCode) w")
  case (Inl msg)
  with assms show ?thesis by (simp add: e2b_loop_result)
next
  case (Inr it)
  show ?thesis
  proof (cases it)
    case (Continue fo cc)
    with Inr assms
    have "resultE (e2b_loop env sb code h (iteration + 1) fo cc)
            (worldE (e2b_iteration env sb code h fullOutput currentCode) w) = Inr (res, n)"
      by (simp add: e2b_loop_result)
    from e2b_loop_bounds [OF _ this] assms(1) show ?thesis by simp
  next
    case (Return r)
    with Inr assms show ?thesis by (auto simp: e2b_loop_result)
  qed
qed

lemma e2b_continues_loop:
  "e2b_continues env sb code h n fullOutput currentCode w = Some (fo, cc, w') \<Longrightarrow>
   iteration + n \<le> 100 \<Longrightarrow>
   resultE (e2b_loop env sb code h iteration fullOutput currentCode) w =
   resultE (e2b_loop env sb code h (iteration + n) fo cc) w'"
proof (induction n arbitrary: iteration fullOutput currentCode w)
  case 0
  then show ?case by simp
next
  case (Suc n)
  from Suc.prems obtain fo1 cc1 where
    it: "resultE (e2b_iteration env sb code h fullOutput currentCode) w = Inr (Continue fo1 cc1)"
    by (auto split: sum.splits iter.splits)
  with Suc.prems have
    "e2b_continues env sb code h n fo1 cc1
       (worldE (e2b_iteration env sb code h fullOutput currentCode) w) = Some (fo, cc, w')"
    by simp
  with Suc.IH [of fo1 cc1 _ "iteration + 1"] Suc.prems(2)
  have "resultE (e2b_loop env sb code h (iteration + 1) fo1 cc1)
          (worldE (e2b_iteration env sb code h fullOutput currentCode) w) =
        resultE (e2b_loop env sb code h (iteration + 1 + n) fo cc) w'"
    by simp
  moreover from Suc.prems(2) have "iteration < 100" by simp
  ultimately show ?case
    by (simp add: e2b_loop_result it)
qed

text \<open>
  C4. \<open>executeWithLlmSupport\<close> is a total function of the code, the handler and the world
  (its loop is defined with the measure \<open>100 - iteration\<close>), and whenever it returns a
  result the loop has made between 1 and 100 turns. When 100 turns in a row end in
  \<open>continue\<close>, it returns the failure \<open>Max iterations\<close> (Daytona) or
  \<open>Max iterations exceeded\<close> (E2B) with the accumulated output.
\<close>

theorem iteration_cap:
  "(resultE (daytona_executeWithLlmSupport env sb code h) w = Inr (res, n) \<longrightarrow> 1 \<le> n \<and> n \<le> 100)
   \<and> (resultE (e2b_executeWithLlmSupport env sb code h) w = Inr (res, n) \<longrightarrow> 1 \<le> n \<and> n \<le> 100)
   \<and> (sb_sandbox sb \<noteq> None \<and> daytona_continues env sb code h 100 [] code w = Some (fo, cc, w') \<longrightarrow>
        resultE (daytona_executeWithLlmSupport env sb code h) w =
          Inr (\<lparr> r_success = False, r_output = fo, r_error = Some ''Max iterations'',
                 r_finalResult = None \<rparr>, 100))
   \<and> (sb_sandbox sb \<noteq> None \<and> e2b_continues env sb code h 100 [] code w = Some (fo, cc, w') \<longrightarrow>
        resultE (e2b_executeWithLlmSupport env sb code h) w =
          Inr (\<lparr> r_success = False, r_output = fo, r_error = Some ''Max iterations exceeded'',
                 r_finalResult = None \<rparr>, 100))"
proof -
  have a: "1 \<le> n \<and> n \<le> 100"
    if "resultE (daytona_executeWithLlmSupport env sb code h) w = Inr (res, n)"
  proof -
    from that have nn: "sb_sandbox sb \<noteq> None"
      by (cases "sb_sandbox sb") (simp_all add: daytona_executeWithLlmSupport_def)
    with that have r: "resultE (daytona_loop env sb code h 0 [] code) w = Inr (res, n)"
      by (simp add: daytona_executeWithLlmSupport_def)
    from daytona_loop_bounds_strict [OF _ r] show ?thesis by simp
  qed
  have b: "1 \<le> n \<and> n \<le> 100"
    if "resultE (e2b_executeWithLlmSupport env sb code h) w = Inr (res, n)"
  proof -
    from that have nn: "sb_sandbox sb \<noteq> None"
      by (cases "sb_sandbox sb") (simp_all add: e2b_executeWithLlmSupport_def)
    with that have r: "resultE (e2b_loop env sb code h 0 [] code) w = Inr (res, n)"
      by (simp add: e2b_executeWithLlmSupport_def)
    from e2b_loop_bounds_strict [OF _ r] show ?thesis by simp
  qed
  have c: "resultE (daytona_executeWithLlmSupport env sb code h) w =
          Inr (\<lparr> r_success = False, r_output = fo, r_error = Some ''Max iterations'',
                 r_finalResult = None \<rparr>, 100)"
    if "sb_sandbox sb \<noteq> None" "daytona_continues env sb code h 100 [] code w = Some (fo, cc, w')"
    using that daytona_continues_loop [of env sb code h 100 "[]" code w fo cc w' 0]
    by (simp add: daytona_executeWithLlmSupport_def daytona_loop_cap)
  have d: "resultE (e2b_executeWithLlmSupport env sb code h) w =
          Inr (\<lparr> r_success = False, r_output = fo, r_error = Some ''Max iterations exceeded'',
                 r_finalResult = None \<rparr>, 100)"
    if "sb_sandbox sb \<noteq> None" "e2b_continues env sb code h 100 [] code w = Some (fo, cc, w')"
    using that e2b_continues_loop [of env sb code h 100 "[]" code w fo cc w' 0]
    by (simp add: e2b_executeWithLlmSupport_def e2b_loop_cap)
  from a b c d show ?thesis by blast
qed

lemma matches_queryBlock_q:
  "finalMatch (queryBlock ''q'') = None" "batchMatch (queryBlock ''q'') = None"
  "queryMatch (queryBlock ''q'') = Some ''q''" "queryBlock ''q'' \<noteq> []" "trim ''q'' = ''q''"
  "e2b_output queryRun = queryBlock ''q''"
  by (simp_all add: finalMatch_def batchMatch_def queryMatch_def match_between_def
      match_group_def queryBlock_def trim_def is_ws_def e2b_output_def queryRun_def)

lemma pendingEnv_daytona_turn:
  "resultE (daytona_iteration pendingEnv exampleSandbox code exampleHandler fo cc) w =
     Inr (Continue (fo @ queryBlock ''q'') (daytona_singleCode ''q'' ''r'' code))"
  "worldE (daytona_iteration pendingEnv exampleSandbox code exampleHandler fo cc) w = w + 1"
  by (simp_all add: daytona_iteration_def projE_bindE pendingEnv_def exampleEnv_def pendingRun_def
      run_output_def matches_queryBlock_q daytona_decode_def exampleHandler_def Let_def)

lemma pendingEnv_e2b_turn:
  "resultE (e2b_iteration pendingEnv exampleSandbox code exampleHandler fo cc) w =
     Inr (Continue (fo @ queryBlock ''q'') (e2b_singleCode ''q'' ''r'' code))"
  "worldE (e2b_iteration pendingEnv exampleSandbox code exampleHandler fo cc) w = w + 1"
  by (simp_all add: e2b_iteration_def projE_bindE pendingEnv_def exampleEnv_def
      matches_queryBlock_q e2b_decode_def exampleHandler_def Let_def)

lemma pendingEnv_daytona_continues:
  "daytona_continues pendingEnv exampleSandbox code exampleHandler n fo cc w =
     Some (fo @ concat (replicate n (queryBlock ''q'')),
           (if n = 0 then cc else daytona_singleCode ''q'' ''r'' code), w + int n)"
  by (induction n arbitrary: fo cc w) (simp_all add: pendingEnv_daytona_turn)

lemma pendingEnv_e2b_continues:
  "e2b_continues pendingEnv exampleSandbox code exampleHandler n fo cc w =
     Some (fo @ concat (replicate n (queryBlock ''q'')),
           (if n = 0 then cc else e2b_singleCode ''q'' ''r'' code), w + int n)"
  by (induction n arbitrary: fo cc w) (simp_all add: pendingEnv_e2b_turn)

theorem iteration_cap_witness:
  "resultE (daytona_executeWithLlmSupport pendingEnv exampleSandbox ''code'' exampleHandler) 0 =
     Inr (\<lparr> r_success = False, r_output = concat (replicate 100 (queryBlock ''q'')),
            r_error = Some ''Max iterations'', r_finalResult = None \<rparr>, 100)
   \<and> resultE (e2b_executeWithLlmSupport pendingEnv exampleSandbox ''code'' exampleHandler) 0 =
     Inr (\<lparr> r_success = False, r_output = concat (replicate 100 (queryBlock ''q'')),
            r_error = Some ''Max iterations exceeded'', r_finalResult = None \<rparr>, 100)
   \<and> resultE (daytona_executeWithLlmSupport pendingEnv exampleSandbox ''code'' failingHandler) 0 =
     Inl ''provider error''"
proof -
  have sb: "sb_sandbox exampleSandbox \<noteq> None" by (simp add: exampleSandbox_def)
  note inst1 = iteration_cap [where env = pendingEnv and sb = exampleSandbox and code = "''code''"
      and h = exampleHandler and w = 0 and fo = "concat (replicate 100 (queryBlock ''q''))"
      and cc = "daytona_singleCode ''q'' ''r'' ''code''" and w' = 100 and n = 100]
  note inst2 = iteration_cap [where env = pendingEnv and sb = exampleSandbox and code = "''code''"
      and h = exampleHandler and w = 0 and fo = "concat (replicate 100 (queryBlock ''q''))"
      and cc = "e2b_singleCode ''q'' ''r'' ''code''" and w' = 100 and n = 100]
  have 1: "resultE (daytona_executeWithLlmSupport pendingEnv exampleSandbox ''code'' exampleHandler) 0 =
     Inr (\<lparr> r_success = False, r_output = concat (replicate 100 (queryBlock ''q'')),
            r_error = Some ''Max iterations'', r_finalResult = None \<rparr>, 100)"
    using inst1 sb by (simp add: pendingEnv_daytona_continues)
  have 2: "resultE (e2b_executeWithLlmSupport pendingEnv exampleSandbox ''code'' exampleHandler) 0 =
     Inr (\<lparr> r_success = False, r_output = concat (replicate 100 (queryBlock ''q'')),
            r_error = Some ''Max iterations exceeded'', r_finalResult = None \<rparr>, 100)"
    using inst2 sb by (simp add: pendingEnv_e2b_continues)
  have 3: "resultE (daytona_executeWithLlmSupport pendingEnv exampleSandbox ''code'' failingHandler) 0 =
     Inl ''provider error''"
    using sb
    by (simp add: daytona_executeWithLlmSupport_def daytona_loop_result daytona_iteration_def
        projE_bindE pendingEnv_def exampleEnv_def pendingRun_def run_output_def
        matches_queryBlock_q daytona_decode_def failingHandler_def Let_def)
  from 1 2 3 show ?thesis by simp
qed

section \<open>Reading back what JSON.stringify wrote\<close>

lemma cons_value_Some [simp]: "cons_value c (Some (v, rest)) = Some (c # v, rest)"
  by (simp add: cons_value_def)






lemma strip_prefix_simps [simp]:
  "strip_prefix [] s = Some s"
  "strip_prefix (c # p) [] = None"
  "strip_prefix (c # p) (d # s) = (if c = d then strip_prefix p s else None)"
  by (simp_all add: strip_prefix_def)



section \<open>C7: the cache answers the prompt that was resolved\<close>







section \<open>C10: the pending prompt is the trimmed capture\<close>

lemma split_first_decompose:
  "split_first pat s = Some (b, a) \<Longrightarrow> s = b @ pat @ a"
proof (induction s arbitrary: b)
  case Nil
  then show ?case by (simp split: if_splits)
next
  case (Cons c cs)
  show ?case
  proof (cases "prefix pat (c # cs)")
    case True
    with Cons.prems have "b = []" "a = drop (length pat) (c # cs)" by simp_all
    moreover from True have "c # cs = pat @ drop (length pat) (c # cs)"
      by (metis append_eq_conv_conj prefixE)
    ultimately show ?thesis by simp
  next
    case False
    with Cons.prems obtain b' where "split_first pat cs = Some (b', a)" "b = c # b'"
      by (auto split: option.splits)
    with Cons.IH show ?thesis by simp
  qed
qed

lemma match_between_decompose:
  assumes "match_between start fin s = Some g"
  shows "\<exists>pre post. s = pre @ start @ [NL] @ g @ [NL] @ fin @ post"
proof -
  from assms obtain pre rest post where
    1: "split_first (start @ [NL]) s = Some (pre, rest)" and
    2: "split_first (NL # fin) rest = Some (g, post)"
    by (auto simp: match_between_def match_group_def split: option.splits)
  from split_first_decompose [OF 1] split_first_decompose [OF 2]
  have "s = pre @ start @ [NL] @ g @ [NL] @ fin @ post" by simp
  then show ?thesis by blast
qed

lemma daytona_decode_single_iff:
  "daytona_decode output = PendingSingle p \<Longrightarrow>
   \<exists>g. queryMatch output = Some g \<and> p = trim g"
  by (auto simp: daytona_decode_def split: option.splits)

lemma e2b_decode_single_iff:
  "e2b_decode output = PendingSingle p \<Longrightarrow>
   \<exists>g. queryMatch output = Some g \<and> p = trim g"
  by (auto simp: e2b_decode_def split: option.splits)

lemma pending_single_between:
  assumes "\<exists>g. queryMatch output = Some g \<and> p = trim g"
  shows "\<exists>pre g post. output = pre @ ''__LLM_QUERY_START__'' @ [NL] @ g @ [NL]
                            @ ''__LLM_QUERY_END__'' @ post \<and> p = trim g"
proof -
  from assms obtain g where g: "queryMatch output = Some g" "p = trim g" by blast
  from match_between_decompose [OF g(1) [unfolded queryMatch_def]]
  obtain pre post where
    "output = pre @ ''__LLM_QUERY_START__'' @ [NL] @ g @ [NL] @ ''__LLM_QUERY_END__'' @ post"
    by blast
  with g(2) show ?thesis by blast
qed

lemma daytona_iteration_single:
  assumes "codeRun env (sb_runtimePrefix sb @ currentCode) w = (RunResult res stdout (Some ec), w1)"
    and "daytona_decode (run_output res stdout) = PendingSingle p"
    and "resultE (h p (fst (nanoid env w1))) (snd (dateNow env (snd (nanoid env w1)))) = Inr resp"
  shows "resultE (daytona_iteration env sb code h fullOutput currentCode) w =
           Inr (Continue (fullOutput @ run_output res stdout) (daytona_singleCode p resp code))"
  using assms
  by (simp add: daytona_iteration_def projE_bindE Let_def)

lemma e2b_iteration_single:
  assumes "runCode env (the (sb_sandbox sb)) currentCode w = (run, w1)"
    and "e2b_decode (e2b_output run) = PendingSingle p"
    and "resultE (h p (fst (nanoid env w1))) (snd (dateNow env (snd (nanoid env w1)))) = Inr resp"
  shows "resultE (e2b_iteration env sb code h fullOutput currentCode) w =
           Inr (Continue (fullOutput @ e2b_output run) (e2b_singleCode p resp code))"
  using assms
  by (simp add: e2b_iteration_def projE_bindE Let_def)

text \<open>
  C10. When a run's output is classified as a single pending call, the prompt is the text
  between the line \<open>__LLM_QUERY_START__\<close> and the line \<open>__LLM_QUERY_END__\<close> with the white
  space at both ends removed. That trimmed prompt is what the handler is called with, and
  the next program starts with a cache entry whose key is \<open>JSON.stringify\<close> of the trimmed
  prompt: \<open>_llm_cache = {key: value}\<close> in the Daytona client,
  \<open>_llm_cache[key] = value\<close> in the E2B client.
\<close>

theorem single_prompt_is_trimmed:
  "(daytona_decode output = PendingSingle p \<longrightarrow>
      (\<exists>pre g post. output = pre @ ''__LLM_QUERY_START__'' @ [NL] @ g @ [NL]
                               @ ''__LLM_QUERY_END__'' @ post \<and> p = trim g))
   \<and> (e2b_decode output = PendingSingle p \<longrightarrow>
      (\<exists>pre g post. output = pre @ ''__LLM_QUERY_START__'' @ [NL] @ g @ [NL]
                               @ ''__LLM_QUERY_END__'' @ post \<and> p = trim g))
   \<and> (codeRun env (sb_runtimePrefix sb @ currentCode) w = (RunResult res stdout (Some ec), w1)
       \<and> daytona_decode (run_output res stdout) = PendingSingle p
       \<and> resultE (h p (fst (nanoid env w1))) (snd (dateNow env (snd (nanoid env w1)))) = Inr resp
       \<longrightarrow>
       resultE (daytona_iteration env sb code h fullOutput currentCode) w =
         Inr (Continue (fullOutput @ run_output res stdout)
                (''_llm_cache = {'' @ JSON_stringify p @ '': '' @ JSON_stringify resp @ ''}''
                 @ NL # code)))
   \<and> (runCode env (the (sb_sandbox sb)) currentCode w = (run, w2)
       \<and> e2b_decode (e2b_output run) = PendingSingle p
       \<and> resultE (h p (fst (nanoid env w2))) (snd (dateNow env (snd (nanoid env w2)))) = Inr resp
       \<longrightarrow>
       resultE (e2b_iteration env sb code h fullOutput currentCode) w =
         Inr (Continue (fullOutput @ e2b_output run)
                (e2b_cacheHead @ ''_llm_cache['' @ JSON_stringify p @ ''] = ''
                 @ JSON_stringify resp @ e2b_singleStubs @ code @ [NL])))"
proof -
  have a: "\<exists>pre g post. output = pre @ ''__LLM_QUERY_START__'' @ [NL] @ g @ [NL]
                               @ ''__LLM_QUERY_END__'' @ post \<and> p = trim g"
    if "daytona_decode output = PendingSingle p"
    using pending_single_between [OF daytona_decode_single_iff [OF that]] .
  have b: "\<exists>pre g post. output = pre @ ''__LLM_QUERY_START__'' @ [NL] @ g @ [NL]
                               @ ''__LLM_QUERY_END__'' @ post \<and> p = trim g"
    if "e2b_decode output = PendingSingle p"
    using pending_single_between [OF e2b_decode_single_iff [OF that]] .
  have c: "resultE (daytona_iteration env sb code h fullOutput currentCode) w =
         Inr (Continue (fullOutput @ run_output res stdout)
                (''_llm_cache = {'' @ JSON_stringify p @ '': '' @ JSON_stringify resp @ ''}''
                 @ NL # code))"
    if "codeRun env (sb_runtimePrefix sb @ currentCode) w = (RunResult res stdout (Some ec), w1)"
      "daytona_decode (run_output res stdout) = PendingSingle p"
      "resultE (h p (fst (nanoid env w1))) (snd (dateNow env (snd (nanoid env w1)))) = Inr resp"
    using that by (simp add: daytona_iteration_single daytona_singleCode_def)
  have d: "resultE (e2b_iteration env sb code h fullOutput currentCode) w =
         Inr (Continue (fullOutput @ e2b_output run)
                (e2b_cacheHead @ ''_llm_cache['' @ JSON_stringify p @ ''] = ''
                 @ JSON_stringify resp @ e2b_singleStubs @ code @ [NL]))"
    if "runCode env (the (sb_sandbox sb)) currentCode w = (run, w2)"
      "e2b_decode (e2b_output run) = PendingSingle p"
      "resultE (h p (fst (nanoid env w2))) (snd (dateNow env (snd (nanoid env w2)))) = Inr resp"
    using that by (simp add: e2b_iteration_single e2b_singleCode_def cacheEntry_def)
  from a b c d show ?thesis by blast
qed

lemma spaced_facts:
  "daytona_decode (queryBlock '' q '') = PendingSingle ''q''"
  "e2b_decode (queryBlock '' q '') = PendingSingle ''q''"
  "queryBlock '' q '' \<noteq> []"
  "e2b_output spacedE2BRun = queryBlock '' q ''"
  "JSON_stringify ''q'' = [DQ, CHR ''q'', DQ]"
  "JSON_stringify ''r'' = [DQ, CHR ''r'', DQ]"
  by (simp_all add: daytona_decode_def e2b_decode_def finalMatch_def batchMatch_def
      queryMatch_def match_between_def match_group_def queryBlock_def trim_def is_ws_def
      e2b_output_def spacedE2BRun_def JSON_stringify_def json_escape_def)

text \<open>The program passes the prompt \<open>'' q ''\<close> (with spaces) to the stub; the key of the
  injected entry is \<open>"q"\<close>.\<close>

theorem single_prompt_is_trimmed_witness:
  "daytona_llm_query None '' q '' = PyExit (queryBlock '' q '') 42
   \<and> resultE (daytona_iteration spacedEnv exampleSandbox ''code'' exampleHandler [] ''code'') 0 =
       Inr (Continue (queryBlock '' q '')
              (''_llm_cache = {'' @ [DQ, CHR ''q'', DQ] @ '': '' @ [DQ, CHR ''r'', DQ] @ ''}''
               @ NL # ''code''))
   \<and> resultE (e2b_iteration spacedEnv exampleSandbox ''code'' exampleHandler [] ''code'') 0 =
       Inr (Continue (queryBlock '' q '')
              (e2b_cacheHead @ ''_llm_cache['' @ [DQ, CHR ''q'', DQ] @ ''] = ''
               @ [DQ, CHR ''r'', DQ] @ e2b_singleStubs @ ''code'' @ [NL]))"
proof -
  note inst = single_prompt_is_trimmed [where ?output = "queryBlock '' q ''" and p = "''q''"
      and env = spacedEnv and sb = exampleSandbox and currentCode = "''code''" and w = 0
      and res = "Some (queryBlock '' q '')" and stdout = None and ec = 42 and ?w1.0 = 0
      and h = exampleHandler and resp = "''r''" and code = "''code''" and fullOutput = "[]"
      and run = spacedE2BRun and ?w2.0 = 0]
  have h1: "codeRun spacedEnv (sb_runtimePrefix exampleSandbox @ ''code'') 0 =
          (RunResult (Some (queryBlock '' q '')) None (Some 42), 0)"
    by (simp add: spacedEnv_def exampleEnv_def spacedRun_def)
  have h2: "run_output (Some (queryBlock '' q '')) None = queryBlock '' q ''"
    by (simp add: run_output_def spaced_facts)
  have h3: "resultE (exampleHandler ''q'' x) y = Inr ''r''" for x y
    by (simp add: exampleHandler_def)
  have h4: "runCode spacedEnv (the (sb_sandbox exampleSandbox)) ''code'' 0 = (spacedE2BRun, 0)"
    by (simp add: spacedEnv_def exampleEnv_def)
  from inst h1 h2 h3 h4 show ?thesis
    by (simp add: spaced_facts daytona_llm_query_def)
qed

section \<open>More facts about computations\<close>

lemma resultE_catchE:
  "resultE (catchE m h) w =
     (case resultE m w of Inl msg \<Rightarrow> resultE (h msg) (worldE m w) | Inr x \<Rightarrow> Inr x)"
  by (simp add: resultE_def worldE_def catchE_def split: prod.splits sum.splits)

lemma traceE_catchE:
  "traceE (catchE m h) w =
     (case resultE m w of Inl msg \<Rightarrow> traceE m w @ traceE (h msg) (worldE m w)
      | Inr x \<Rightarrow> traceE m w)"
  by (simp add: resultE_def worldE_def traceE_def catchE_def split: prod.splits sum.splits)

lemma worldE_catchE:
  "worldE (catchE m h) w =
     (case resultE m w of Inl msg \<Rightarrow> worldE (h msg) (worldE m w) | Inr x \<Rightarrow> worldE m w)"
  by (simp add: resultE_def worldE_def catchE_def split: prod.splits sum.splits)

lemma resultE_finallyE:
  "resultE (finallyE m fin) w =
     (case resultE fin (worldE m w) of Inl msg2 \<Rightarrow> Inl msg2 | Inr u \<Rightarrow> resultE m w)"
  by (simp add: resultE_def worldE_def finallyE_def split: prod.splits sum.splits)

lemma traceE_finallyE:
  "traceE (finallyE m fin) w = traceE m w @ traceE fin (worldE m w)"
  by (simp add: resultE_def worldE_def traceE_def finallyE_def split: prod.splits sum.splits)

lemma worldE_finallyE:
  "worldE (finallyE m fin) w = worldE fin (worldE m w)"
  by (simp add: resultE_def worldE_def finallyE_def split: prod.splits sum.splits)

lemmas projE_all = projE_bindE resultE_catchE traceE_catchE worldE_catchE
  resultE_finallyE traceE_finallyE worldE_finallyE

lemma show_int_small: "show_int 0 = ''0''" "show_int 1 = ''1''" "show_int 2 = ''2''"
  "show_int 3 = ''3''"
  by code_simp+

lemma show_nat_small: "show_nat 0 = ''0''" "show_nat 1 = ''1''" "show_nat 2 = ''2''"
  "show_nat 3 = ''3''"
  by code_simp+

section \<open>C5: delegation at maximum depth\<close>

lemma createLlmHandler_leaf:
  "\<not> currentDepth + 1 < maxDepth \<Longrightarrow>
   createLlmHandler env maxDepth rootContextId currentDepth = leafAnswer env (currentDepth + 1)"
  by (subst createLlmHandler.simps) simp

text \<open>
  C5. With \<open>maxDepth = 1\<close> (and whenever \<open>currentDepth + 1\<close> is not below \<open>maxDepth\<close>) the
  handler made by \<open>createLlmHandler\<close> answers a delegation with exactly two actions: one
  \<open>node:output\<close> event for the child and one completion call whose system instruction is
  \<open>RLM_SUB_PROMPT\<close>. It creates no sandbox and runs no code; its result is the provider's
  answer as it is (or the provider's exception), whatever the text holds.
\<close>

theorem leaf_delegation:
  "traceE (createLlmHandler env 1 rootContextId 0 subPrompt childNodeId) w =
     [Emit (NodeOutput childNodeId ''[depth 1] Max depth reached, answering directly...''),
      CallGenerateText \<lparr> g_system = Some RLM_SUB_PROMPT, g_prompt = subPrompt,
                         g_maxOutputTokens = 4096, g_thinkingBudget = None \<rparr>]
   \<and> resultE (createLlmHandler env 1 rootContextId 0 subPrompt childNodeId) w =
       fst (generateText env \<lparr> g_system = Some RLM_SUB_PROMPT, g_prompt = subPrompt,
                                g_maxOutputTokens = 4096, g_thinkingBudget = None \<rparr> w)
   \<and> (\<not> currentDepth + 1 < maxDepth \<longrightarrow>
        traceE (createLlmHandler env maxDepth rootContextId currentDepth subPrompt childNodeId) w =
          [Emit (NodeOutput childNodeId
             (depthNote (currentDepth + 1) ''Max depth reached, answering directly...'')),
           CallGenerateText \<lparr> g_system = Some RLM_SUB_PROMPT, g_prompt = subPrompt,
                              g_maxOutputTokens = 4096, g_thinkingBudget = None \<rparr>]
        \<and> resultE (createLlmHandler env maxDepth rootContextId currentDepth subPrompt childNodeId) w =
            fst (generateText env \<lparr> g_system = Some RLM_SUB_PROMPT, g_prompt = subPrompt,
                                     g_maxOutputTokens = 4096, g_thinkingBudget = None \<rparr> w))"
  by (simp add: createLlmHandler_leaf leafAnswer_def projE_all depthNote_def show_int_small)

lemma e2b_cacheHead_starts: "\<not> prefix e2b_cacheHead ''print(1)''"
  "\<not> prefix e2b_cacheHead (e2b_runtimeCode ctx)"
  "prefix e2b_cacheHead (e2b_singleCode p r code)"
  by (simp_all add: e2b_cacheHead_def e2b_runtimeCode_def e2b_singleCode_def)

theorem leaf_delegation_witness:
  "resultE (createLlmHandler (scenarioEnv (Inr ())) 3 ''ctx'' 2 ''q'' ''n1'') 5 = Inr (queryBlock ''again'')
   \<and> traceE (createLlmHandler (scenarioEnv (Inr ())) 3 ''ctx'' 2 ''q'' ''n1'') 5 =
       [Emit (NodeOutput ''n1'' ''[depth 3] Max depth reached, answering directly...''),
        CallGenerateText \<lparr> g_system = Some RLM_SUB_PROMPT, g_prompt = ''q'',
                           g_maxOutputTokens = 4096, g_thinkingBudget = None \<rparr>]"
  using leaf_delegation [where env = "scenarioEnv (Inr ())" and maxDepth = 3 and currentDepth = 2
      and rootContextId = "''ctx''" and subPrompt = "''q''" and childNodeId = "''n1''" and w = 5]
  by (simp add: scenarioEnv_def exampleEnv_def depthNote_def show_int_small)

section \<open>A complete small run\<close>

lemma scenario_oracles [simp]:
  "nanoid (scenarioEnv app) w = (CHR ''n'' # show_int w, w + 1)"
  "dateNow (scenarioEnv app) w = (w, w)"
  "generateText (scenarioEnv app) rq w =
     (Inr (if g_system rq = None then ''print(1)'' else queryBlock ''again''), w)"
  "runCode (scenarioEnv app) h c w = (if prefix e2b_cacheHead c then finalRun else queryRun, w)"
  "sandboxCreate (scenarioEnv app) w = (Inr (nat w), w)"
  "sandboxKill (scenarioEnv app) h w = (Inr (), w)"
  "ucAppend (scenarioEnv app) x w = (app, w)"
  by (simp_all add: scenarioEnv_def exampleEnv_def)

lemma finalRun_facts:
  "e2b_output finalRun = finalBlock ''1''"
  "e2b_error finalRun = None"
  "e2b_decode (finalBlock ''1'') = FinalResult ''1''"
  "trim (finalBlock ''1'') \<noteq> []"
  "\<not> str_includes (finalBlock ''1'') ''__LLM_QUERY_''"
  "\<not> str_includes (finalBlock ''1'') ''__LLM_BATCH_''"
  "trim (strip_literals e2b_markers 0 (finalBlock ''1'')) = ''1''"
  by (simp_all add: e2b_output_def e2b_error_def finalRun_def e2b_decode_def finalMatch_def
      batchMatch_def queryMatch_def match_between_def match_group_def trim_def is_ws_def
      e2b_markers_def finalBlock_def)

lemma queryRun_facts:
  "e2b_output queryRun = queryBlock ''q''"
  "e2b_decode (queryBlock ''q'') = PendingSingle ''q''"
  "str_includes (queryBlock ''q'') ''__LLM_QUERY_''"
  "x_completion queryRun = Finished (Some (''RuntimeError'', ''LLM_QUERY_PENDING''))"
  by (simp_all add: e2b_output_def queryRun_def e2b_decode_def finalMatch_def
      batchMatch_def queryMatch_def match_between_def match_group_def trim_def is_ws_def
      queryBlock_def)

lemma scenario_first_turn:
  "resultE (e2b_iteration (scenarioEnv app) scenarioSandbox ''print(1)''
      (createLlmHandler (scenarioEnv app) 1 ''ctx'' 0) [] ''print(1)'') 1 =
     Inr (Continue (queryBlock ''q'') (e2b_singleCode ''q'' (queryBlock ''again'') ''print(1)''))"
  "worldE (e2b_iteration (scenarioEnv app) scenarioSandbox ''print(1)''
      (createLlmHandler (scenarioEnv app) 1 ''ctx'' 0) [] ''print(1)'') 1 = 2"
  "events_of (traceE (e2b_iteration (scenarioEnv app) scenarioSandbox ''print(1)''
      (createLlmHandler (scenarioEnv app) 1 ''ctx'' 0) [] ''print(1)'') 1) =
     [NodeCreated scenarioChild, NodeLlmStart ''n1'' ''q'',
      NodeOutput ''n1'' ''[depth 1] Max depth reached, answering directly...'',
      NodeLlmEnd ''n1'' (queryBlock ''again''), NodeStatus ''n1'' Completed]"
  by (simp_all add: e2b_iteration_def projE_all Let_def scenarioSandbox_def e2b_cacheHead_starts
      queryRun_facts createLlmHandler_leaf leafAnswer_def depthNote_def show_int_small
      show_nat_small scenarioChild_def RLM_SUB_PROMPT_def)

lemma scenario_second_turn:
  "resultE (e2b_iteration (scenarioEnv app) scenarioSandbox ''print(1)''
      (createLlmHandler (scenarioEnv app) 1 ''ctx'' 0) (queryBlock ''q'')
      (e2b_singleCode ''q'' (queryBlock ''again'') ''print(1)'')) 2 = Inr (Return scenarioResult)"
  "worldE (e2b_iteration (scenarioEnv app) scenarioSandbox ''print(1)''
      (createLlmHandler (scenarioEnv app) 1 ''ctx'' 0) (queryBlock ''q'')
      (e2b_singleCode ''q'' (queryBlock ''again'') ''print(1)'')) 2 = 2"
  "events_of (traceE (e2b_iteration (scenarioEnv app) scenarioSandbox ''print(1)''
      (createLlmHandler (scenarioEnv app) 1 ''ctx'' 0) (queryBlock ''q'')
      (e2b_singleCode ''q'' (queryBlock ''again'') ''print(1)'')) 2) = [NodeOutput ''n0'' ''1'']"
  by (simp_all add: e2b_iteration_def projE_all Let_def scenarioSandbox_def e2b_cacheHead_starts
      finalRun_facts scenarioResult_def)

lemma scenario_execute:
  "resultE (e2b_executeWithLlmSupport (scenarioEnv app) scenarioSandbox ''print(1)''
      (createLlmHandler (scenarioEnv app) 1 ''ctx'' 0)) 1 = Inr (scenarioResult, 2)"
  "worldE (e2b_executeWithLlmSupport (scenarioEnv app) scenarioSandbox ''print(1)''
      (createLlmHandler (scenarioEnv app) 1 ''ctx'' 0)) 1 = 2"
  "events_of (traceE (e2b_executeWithLlmSupport (scenarioEnv app) scenarioSandbox ''print(1)''
      (createLlmHandler (scenarioEnv app) 1 ''ctx'' 0)) 1) =
     [NodeCreated scenarioChild, NodeLlmStart ''n1'' ''q'',
      NodeOutput ''n1'' ''[depth 1] Max depth reached, answering directly...'',
      NodeLlmEnd ''n1'' (queryBlock ''again''), NodeStatus ''n1'' Completed,
      NodeOutput ''n0'' ''1'']"
proof -
  have sb: "sb_sandbox scenarioSandbox \<noteq> None" by (simp add: scenarioSandbox_def)
  have lt: "(0::nat) < 100" "(1::nat) < 100" by simp_all
  note r1 = e2b_loop_result [OF lt(1)] and r2 = e2b_loop_result [OF lt(2)]
  note t1 = e2b_loop_trace [OF lt(1)] and t2 = e2b_loop_trace [OF lt(2)]
  show "resultE (e2b_executeWithLlmSupport (scenarioEnv app) scenarioSandbox ''print(1)''
      (createLlmHandler (scenarioEnv app) 1 ''ctx'' 0)) 1 = Inr (scenarioResult, 2)"
    using sb
    by (simp add: e2b_executeWithLlmSupport_def r1 r2 scenario_first_turn scenario_second_turn
        del: One_nat_def)
  show "events_of (traceE (e2b_executeWithLlmSupport (scenarioEnv app) scenarioSandbox ''print(1)''
      (createLlmHandler (scenarioEnv app) 1 ''ctx'' 0)) 1) =
     [NodeCreated scenarioChild, NodeLlmStart ''n1'' ''q'',
      NodeOutput ''n1'' ''[depth 1] Max depth reached, answering directly...'',
      NodeLlmEnd ''n1'' (queryBlock ''again''), NodeStatus ''n1'' Completed,
      NodeOutput ''n0'' ''1'']"
    using sb
    by (simp add: e2b_executeWithLlmSupport_def t1 t2 scenario_first_turn scenario_second_turn
        del: One_nat_def)
  show "worldE (e2b_executeWithLlmSupport (scenarioEnv app) scenarioSandbox ''print(1)''
      (createLlmHandler (scenarioEnv app) 1 ''ctx'' 0)) 1 = 2"
    using sb
    apply (simp add: e2b_executeWithLlmSupport_def)
    apply (subst e2b_loop.simps)
    apply (simp add: worldE_bindE scenario_first_turn del: One_nat_def)
    apply (subst e2b_loop.simps)
    apply (simp add: worldE_bindE scenario_second_turn del: One_nat_def)
    done
qed

lemma extract_print: "extractPythonCode ''print(1)'' = ''print(1)''"
  by (simp add: extractPythonCode_def match_group_def codeStartLine_def trim_def is_ws_def)

lemma scenario_request: "requestMaxDepth exampleRequest = 1" "rq_query exampleRequest = ''count pairs''"
  by (simp_all add: requestMaxDepth_def exampleRequest_def)

lemma scenario_create:
  "resultE (e2b_createRLMSandbox (scenarioEnv app) ''n0'' ''ctx'' ctx 0) 1 = Inr scenarioSandbox"
  "worldE (e2b_createRLMSandbox (scenarioEnv app) ''n0'' ''ctx'' ctx 0) 1 = 1"
  "events_of (traceE (e2b_createRLMSandbox (scenarioEnv app) ''n0'' ''ctx'' ctx 0) 1) = []"
  by (simp_all add: e2b_createRLMSandbox_def projE_all e2b_cacheHead_starts queryRun_facts
      scenarioSandbox_def)

lemma scenario_close:
  "resultE (e2b_close (scenarioEnv app) scenarioSandbox) w = Inr ()"
  "events_of (traceE (e2b_close (scenarioEnv app) scenarioSandbox) w) = []"
  by (simp_all add: e2b_close_def scenarioSandbox_def)

lemma scenario_report:
  "resultE (reportResult (scenarioEnv app) exampleRequest ''ctx'' ''n0'' ''print(1)'' scenarioResult) w = app"
  "events_of (traceE (reportResult (scenarioEnv app) exampleRequest ''ctx'' ''n0'' ''print(1)'' scenarioResult) w) =
     [NodeStatus ''n0'' Completed, ExecutionComplete ''1'']"
  by (simp_all add: reportResult_def scenarioResult_def projE_all)

lemma scenario_stream:
  "events_of (traceE (streamStart (scenarioEnv app) exampleRequest ''ctx'') 0) =
     scenarioEvents @ [NodeStatus ''n0'' Completed, ExecutionComplete ''1'']
     @ (case app of Inl msg \<Rightarrow> [ExecutionError msg] | Inr u \<Rightarrow> [])"
  by (cases app)
     (simp_all add: streamStart_def projE_all show_int_small scenario_request extract_print
      scenario_create scenario_execute scenario_close scenario_report scenarioEvents_def)

section \<open>C9: the shape of the tree\<close>

subsection \<open>Nodes created by a computation\<close>

lemma nodes_of_append [simp]: "nodes_of (xs @ ys) = nodes_of xs @ nodes_of ys"
  by (induction xs rule: nodes_of.induct) simp_all

lemma hangs_below_mono: "hangs_below A n \<Longrightarrow> A \<subseteq> B \<Longrightarrow> hangs_below B n"
  by (auto simp: hangs_below_def)

lemma wfS_Nil [simp]: "wfS known []"
  by (simp add: wfS_def)

lemma wfS_mono: "wfS A ns \<Longrightarrow> A \<subseteq> B \<Longrightarrow> wfS B ns"
  unfolding wfS_def by (meson Un_mono hangs_below_mono order_refl)

lemma wfS_seq:
  assumes "wfS known xs" and "wfS (known \<union> node_key ` set xs) ys"
  shows "wfS known (xs @ ys)"
  unfolding wfS_def
proof
  fix n assume "n \<in> set (xs @ ys)"
  then consider "n \<in> set xs" | "n \<in> set ys" by auto
  then show "hangs_below (known \<union> node_key ` set (xs @ ys)) n"
  proof cases
    case 1
    with assms(1) have "hangs_below (known \<union> node_key ` set xs) n" by (simp add: wfS_def)
    then show ?thesis by (rule hangs_below_mono) auto
  next
    case 2
    with assms(2) have "hangs_below (known \<union> node_key ` set xs \<union> node_key ` set ys) n"
      by (simp add: wfS_def)
    then show ?thesis by (rule hangs_below_mono) auto
  qed
qed

lemma wfS_append: "wfS known xs \<Longrightarrow> wfS known ys \<Longrightarrow> wfS known (xs @ ys)"
  by (rule wfS_seq) (auto intro: wfS_mono)

lemma wfS_Cons:
  assumes "hangs_below known n" and "wfS (insert (node_key n) known) ns"
  shows "wfS known (n # ns)"
proof -
  have "wfS known [n]" using assms(1) by (auto simp: wfS_def intro: hangs_below_mono)
  moreover have "wfS (known \<union> node_key ` set [n]) ns" using assms(2) by simp
  ultimately show ?thesis using wfS_seq [of known "[n]" ns] by simp
qed

lemma nodes_of_bindE:
  "nodes_of (traceE (bindE m f) w) =
     nodes_of (traceE m w) @
     (case resultE m w of Inl msg \<Rightarrow> [] | Inr x \<Rightarrow> nodes_of (traceE (f x) (worldE m w)))"
  by (simp add: traceE_bindE split: sum.splits)

lemma wfE_seq:
  assumes "wfE known m"
    and "\<And>x w. resultE m w = Inr x \<Longrightarrow>
           wfS (known \<union> node_key ` set (nodes_of (traceE m w))) (nodes_of (traceE (f x) (worldE m w)))"
  shows "wfE known (bindE m f)"
  unfolding wfE_def
proof
  fix w
  show "wfS known (nodes_of (traceE (bindE m f) w))"
  proof (cases "resultE m w")
    case (Inl msg)
    with assms(1) show ?thesis by (simp add: nodes_of_bindE wfE_def)
  next
    case (Inr x)
    from assms(1) have "wfS known (nodes_of (traceE m w))" by (simp add: wfE_def)
    with assms(2) [OF Inr] Inr show ?thesis by (simp add: nodes_of_bindE wfS_seq)
  qed
qed

lemma wfE_bindE: "wfE known m \<Longrightarrow> (\<And>x. wfE known (f x)) \<Longrightarrow> wfE known (bindE m f)"
  by (rule wfE_seq) (auto simp: wfE_def intro: wfS_mono)

lemma wfE_mono: "wfE A m \<Longrightarrow> A \<subseteq> B \<Longrightarrow> wfE B m"
  by (auto simp: wfE_def intro: wfS_mono)

lemma wfE_retE [simp]: "wfE known (retE x)"
  by (simp add: wfE_def)

lemma wfE_throwE [simp]: "wfE known (throwE msg)"
  by (simp add: wfE_def)

lemma wfE_quietE [simp]: "wfE known (quietE oracle)"
  by (simp add: wfE_def)

lemma wfE_askE [simp]: "nodes_of [a] = [] \<Longrightarrow> wfE known (askE a oracle)"
  by (simp add: wfE_def)

lemma wfE_callE [simp]: "nodes_of [a] = [] \<Longrightarrow> wfE known (callE a oracle)"
  by (simp add: wfE_def)

lemma wfE_emitE [simp]: "\<not> is_created ev \<Longrightarrow> wfE known (emitE ev)"
  by (cases ev) (simp_all add: wfE_def)

lemma wfE_whenE [simp]: "\<not> is_created ev \<Longrightarrow> wfE known (whenE b (emitE ev))"
  by (cases b) simp_all

lemma wfE_created:
  assumes "hangs_below known node" and "wfE (insert (node_key node) known) (f ())"
  shows "wfE known (bindE (emitE (NodeCreated node)) f)"
  unfolding wfE_def
proof
  fix w
  from assms(2) have "wfS (insert (node_key node) known) (nodes_of (traceE (f ()) w))"
    by (simp add: wfE_def)
  with assms(1) show "wfS known (nodes_of (traceE (bindE (emitE (NodeCreated node)) f) w))"
    by (simp add: nodes_of_bindE wfS_Cons)
qed

lemma wfE_finallyE: "wfE known m \<Longrightarrow> wfE known fin \<Longrightarrow> wfE known (finallyE m fin)"
  by (simp add: wfE_def traceE_finallyE wfS_append)

lemma wfE_catchE: "wfE known m \<Longrightarrow> (\<And>msg. wfE known (h msg)) \<Longrightarrow> wfE known (catchE m h)"
  by (auto simp: wfE_def traceE_catchE wfS_append split: sum.splits)

subsection \<open>The E2B loop creates children of its own node only\<close>

lemma e2b_createNodes_result:
  "\<exists>batch. resultE (e2b_createNodes env sb prompts) w = Inr batch
     \<and> map n_id (nodes_of (traceE (e2b_createNodes env sb prompts) w)) = map fst batch
     \<and> (\<forall>n \<in> set (nodes_of (traceE (e2b_createNodes env sb prompts) w)).
           n_parentId n = Some (sb_parentNodeId sb) \<and> n_depth n = sb_currentDepth sb + 1)"
proof (induction prompts arbitrary: w)
  case Nil
  then show ?case by simp
next
  case (Cons prompt ps)
  let ?w2 = "snd (dateNow env (snd (nanoid env w)))"
  from Cons [of ?w2] obtain rest where
    rest: "resultE (e2b_createNodes env sb ps) ?w2 = Inr rest"
      "map n_id (nodes_of (traceE (e2b_createNodes env sb ps) ?w2)) = map fst rest"
      "\<forall>n \<in> set (nodes_of (traceE (e2b_createNodes env sb ps) ?w2)).
           n_parentId n = Some (sb_parentNodeId sb) \<and> n_depth n = sb_currentDepth sb + 1"
    by blast
  then show ?case
    by (simp add: projE_all newChildNode_def)
qed

lemma e2b_resolveAll_wf:
  assumes "handler_below h d"
  shows "wfE ((\<lambda>i. (i, d)) ` fst ` set batch) (e2b_resolveAll h batch)"
proof (induction batch)
  case Nil
  then show ?case by simp
next
  case (Cons pr rest)
  obtain nodeId prompt where pr: "pr = (nodeId, prompt)" by (cases pr)
  from assms have "wfE {(nodeId, d)} (h prompt nodeId)" by (simp add: handler_below_def)
  then have 1: "wfE ((\<lambda>i. (i, d)) ` fst ` set (pr # rest)) (h prompt nodeId)"
    by (rule wfE_mono) (simp add: pr)
  have 2: "wfE ((\<lambda>i. (i, d)) ` fst ` set (pr # rest)) (e2b_resolveAll h rest)"
    using Cons by (rule wfE_mono) auto
  show ?case
    unfolding pr e2b_resolveAll.simps
    using 1 2 by (intro wfE_bindE) (simp_all add: pr)
qed

lemma e2b_group_wf:
  assumes "handler_below h (sb_currentDepth sb + 1)"
    and f': "\<And>x. wfE {(sb_parentNodeId sb, sb_currentDepth sb)} (f' x)"
  shows "wfE {(sb_parentNodeId sb, sb_currentDepth sb)}
           (bindE (e2b_createNodes env sb prompts) (\<lambda>batch. bindE (e2b_resolveAll h batch) f'))"
proof (rule wfE_seq)
  let ?K = "{(sb_parentNodeId sb, sb_currentDepth sb)}"
  show "wfE ?K (e2b_createNodes env sb prompts)"
    unfolding wfE_def wfS_def
  proof (intro allI ballI)
    fix w n
    assume "n \<in> set (nodes_of (traceE (e2b_createNodes env sb prompts) w))"
    with e2b_createNodes_result [of env sb prompts w]
    have "n_parentId n = Some (sb_parentNodeId sb) \<and> n_depth n = sb_currentDepth sb + 1"
      by blast
    then show "hangs_below (?K \<union> node_key ` set (nodes_of (traceE (e2b_createNodes env sb prompts) w))) n"
      by (auto simp: hangs_below_def)
  qed
next
  let ?K = "{(sb_parentNodeId sb, sb_currentDepth sb)}"
  fix batch w
  assume res: "resultE (e2b_createNodes env sb prompts) w = Inr batch"
  let ?ns = "nodes_of (traceE (e2b_createNodes env sb prompts) w)"
  from e2b_createNodes_result [of env sb prompts w] res
  have ids: "map n_id ?ns = map fst batch"
    and dep: "\<forall>n \<in> set ?ns. n_depth n = sb_currentDepth sb + 1"
    by auto
  have sub: "(\<lambda>i. (i, sb_currentDepth sb + 1)) ` fst ` set batch \<subseteq> ?K \<union> node_key ` set ?ns"
  proof
    fix k assume "k \<in> (\<lambda>i. (i, sb_currentDepth sb + 1)) ` fst ` set batch"
    then obtain i where i: "i \<in> fst ` set batch" "k = (i, sb_currentDepth sb + 1)" by auto
    from i(1) have "i \<in> set (map n_id ?ns)" by (simp add: ids)
    then obtain n where "n \<in> set ?ns" "n_id n = i" by auto
    with dep i(2) have "k = node_key n" by (simp add: node_key_def)
    with \<open>n \<in> set ?ns\<close> show "k \<in> ?K \<union> node_key ` set ?ns" by auto
  qed
  have "wfE (?K \<union> node_key ` set ?ns) (bindE (e2b_resolveAll h batch) f')"
  proof (rule wfE_bindE)
    show "wfE (?K \<union> node_key ` set ?ns) (e2b_resolveAll h batch)"
      using e2b_resolveAll_wf [OF assms(1), of batch] sub by (rule wfE_mono)
    show "wfE (?K \<union> node_key ` set ?ns) (f' x)" for x
      using f' by (rule wfE_mono) auto
  qed
  then show "wfS (?K \<union> node_key ` set ?ns)
          (nodes_of (traceE (bindE (e2b_resolveAll h batch) f') (worldE (e2b_createNodes env sb prompts) w)))"
    by (simp add: wfE_def)
qed

lemma e2b_batches_wf:
  assumes "handler_below h (sb_currentDepth sb + 1)"
  shows "wfE {(sb_parentNodeId sb, sb_currentDepth sb)} (e2b_batches env sb h prompts i responses)"
  using assms
proof (induction env sb h prompts i responses rule: e2b_batches.induct)
  case (1 env sb h prompts i responses)
  show ?case
  proof (cases "i < length prompts")
    case True
    show ?thesis
      apply (subst e2b_batches.simps)
      apply (simp only: True if_True)
      apply (rule e2b_group_wf [OF "1.prems"])
      apply (intro wfE_bindE)
        apply simp
       apply simp
      apply (rule "1.IH" [OF True "1.prems"])
      done
  next
    case False
    then show ?thesis by (subst e2b_batches.simps) simp
  qed
qed

lemma e2b_iteration_wf:
  assumes "handler_below h (sb_currentDepth sb + 1)"
  shows "wfE {(sb_parentNodeId sb, sb_currentDepth sb)} (e2b_iteration env sb code h fo cc)"
proof -
  let ?K = "{(sb_parentNodeId sb, sb_currentDepth sb)}"
  have child: "hangs_below ?K (newChildNode sb c p now)" for c p now
    by (simp add: hangs_below_def newChildNode_def)
  have h: "wfE (insert (node_key (newChildNode sb c p now)) ?K) (h p c)" for c p now
  proof -
    from assms have "wfE {(c, sb_currentDepth sb + 1)} (h p c)" by (simp add: handler_below_def)
    then show ?thesis by (rule wfE_mono) (simp add: node_key_def newChildNode_def)
  qed
  have single: "wfE ?K
      (bindE (emitE (NodeCreated (newChildNode sb c p now))) (\<lambda>_.
       bindE (emitE (NodeLlmStart c p)) (\<lambda>_.
       bindE (h p c) (\<lambda>llmResponse.
       bindE (emitE (NodeLlmEnd c llmResponse)) (\<lambda>_.
       bindE (emitE (NodeStatus c Completed)) (\<lambda>_.
       retE (Continue fo' (e2b_singleCode p llmResponse code))))))))" for c p now fo'
    by (rule wfE_created [OF child]) (intro wfE_bindE h wfE_emitE wfE_retE, simp_all)
  have batch: "wfE ?K
      (case jsonParse env payload of
         Inl msg \<Rightarrow> throwE msg
       | Inr prompts \<Rightarrow>
           bindE (emitE (NodeOutput (sb_parentNodeId sb)
                    (''Processing '' @ show_nat (length prompts)
                     @ '' queries (10 at a time, throttled)...''))) (\<lambda>_.
           bindE (e2b_batches env sb h prompts 0 []) (\<lambda>responses.
           retE (Continue fo' (e2b_batchCode prompts responses code)))))" for payload fo'
    by (cases "jsonParse env payload")
       (simp_all add: wfE_bindE e2b_batches_wf [OF assms])
  have rest: "wfE ?K
      (case e2b_decode out of
         PendingBatch payload \<Rightarrow>
           (case jsonParse env payload of
              Inl msg \<Rightarrow> throwE msg
            | Inr prompts \<Rightarrow>
                bindE (emitE (NodeOutput (sb_parentNodeId sb)
                         (''Processing '' @ show_nat (length prompts)
                          @ '' queries (10 at a time, throttled)...''))) (\<lambda>_.
                bindE (e2b_batches env sb h prompts 0 []) (\<lambda>responses.
                retE (Continue fo' (e2b_batchCode prompts responses code)))))
       | PendingSingle pendingQuery \<Rightarrow>
           bindE (quietE (nanoid env)) (\<lambda>childNodeId.
           bindE (quietE (dateNow env)) (\<lambda>now.
           bindE (emitE (NodeCreated (newChildNode sb childNodeId pendingQuery now))) (\<lambda>_.
           bindE (emitE (NodeLlmStart childNodeId pendingQuery)) (\<lambda>_.
           bindE (h pendingQuery childNodeId) (\<lambda>llmResponse.
           bindE (emitE (NodeLlmEnd childNodeId llmResponse)) (\<lambda>_.
           bindE (emitE (NodeStatus childNodeId Completed)) (\<lambda>_.
           retE (Continue fo' (e2b_singleCode pendingQuery llmResponse code)))))))))
       | FinalResult fin \<Rightarrow> retE (Return (r1 fin))
       | NoMarker \<Rightarrow>
           (if b1 then retE (Continue fo' cc)
            else if b2 then
              bindE (emitE (NodeError (sb_parentNodeId sb) e)) (\<lambda>_. retE (Return r2))
            else retE (Return r3)))" for out fo' r1 b1 b2 e r2 r3
  proof (cases "e2b_decode out")
    case (PendingBatch payload)
    then show ?thesis using batch by simp
  next
    case (PendingSingle q)
    then show ?thesis by (simp add: wfE_bindE single)
  qed (simp_all add: wfE_bindE)
  have run: "wfE ?K (askE (CallRunCode cc) (runCode env (the (sb_sandbox sb)) cc))"
    by (rule wfE_askE) simp
  show ?thesis
    unfolding e2b_iteration_def Let_def
    by (intro wfE_bindE run wfE_whenE rest) simp_all
qed

lemma e2b_loop_wf:
  assumes "handler_below h (sb_currentDepth sb + 1)"
  shows "wfE {(sb_parentNodeId sb, sb_currentDepth sb)} (e2b_loop env sb code h k fo cc)"
  using assms
proof (induction env sb code h k fo cc rule: e2b_loop.induct)
  case (1 env sb code h k fo cc)
  show ?case
  proof (cases "k < 100")
    case True
    have "wfE {(sb_parentNodeId sb, sb_currentDepth sb)}
            (case it of
               Continue fullOutput' currentCode' \<Rightarrow> e2b_loop env sb code h (k + 1) fullOutput' currentCode'
             | Return res \<Rightarrow> retE (res, k + 1))" for it
      using "1.IH" [OF True "1.prems"] by (cases it) simp_all
    then show ?thesis
      by (subst e2b_loop.simps)
         (simp only: True if_True, intro wfE_bindE e2b_iteration_wf "1.prems")
  next
    case False
    then show ?thesis by (subst e2b_loop.simps) simp
  qed
qed

lemma e2b_execute_wf:
  assumes "handler_below h (sb_currentDepth sb + 1)"
  shows "wfE {(sb_parentNodeId sb, sb_currentDepth sb)} (e2b_executeWithLlmSupport env sb code h)"
  using e2b_loop_wf [OF assms] by (simp add: e2b_executeWithLlmSupport_def)

subsection \<open>The handler creates nodes below the child it answers for\<close>

lemma e2b_createRLMSandbox_wf: "wfE known (e2b_createRLMSandbox env p c ctx d)"
  unfolding e2b_createRLMSandbox_def
  by (intro wfE_bindE wfE_callE wfE_askE) (simp_all split: E2BCompletion.splits)

lemma e2b_createRLMSandbox_fields:
  "resultE (e2b_createRLMSandbox env p c ctx d) w = Inr sb \<Longrightarrow>
   sb_parentNodeId sb = p \<and> sb_currentDepth sb = d"
  by (auto simp: e2b_createRLMSandbox_def projE_all split: sum.splits E2BCompletion.splits)

lemma nodes_of_createRLMSandbox [simp]:
  "nodes_of (traceE (e2b_createRLMSandbox env p c ctx d) w) = []"
  by (simp add: e2b_createRLMSandbox_def projE_all split: sum.splits E2BCompletion.splits)

lemma e2b_close_wf: "wfE known (e2b_close env sb)"
  by (cases "sb_sandbox sb") (simp_all add: e2b_close_def)

lemma leafAnswer_below: "handler_below (leafAnswer env d') d"
  unfolding handler_below_def leafAnswer_def
  by (intro allI wfE_bindE wfE_emitE wfE_callE) simp_all

lemma createLlmHandler_below:
  "handler_below (createLlmHandler env maxDepth rootContextId currentDepth) (currentDepth + 1)"
proof (induction env maxDepth rootContextId currentDepth rule: createLlmHandler.induct)
  case (1 env maxDepth rootContextId currentDepth)
  show ?case
  proof (cases "currentDepth + 1 < maxDepth")
    case False
    then show ?thesis by (simp add: createLlmHandler_leaf leafAnswer_below)
  next
    case True
    from "1.IH" [OF True]
    have IH: "handler_below (createLlmHandler env maxDepth rootContextId (currentDepth + 1))
                (currentDepth + 1 + 1)" .
    show ?thesis
      unfolding handler_below_def
    proof (intro allI)
      fix subPrompt childNodeId :: string
      let ?K = "{(childNodeId, currentDepth + 1)}"
      have body: "wfS (?K \<union> node_key ` set (nodes_of (traceE
                    (e2b_createRLMSandbox env childNodeId rootContextId subPrompt (currentDepth + 1)) w)))
                (nodes_of (traceE
                   (finallyE
                     (bindE (emitE (NodeOutput childNodeId t1)) (\<lambda>_.
                      bindE (e2b_executeWithLlmSupport env subSandbox code
                               (createLlmHandler env maxDepth rootContextId (currentDepth + 1)))
                        (\<lambda>subExecResult.
                      bindE (emitE (NodeOutput childNodeId t2)) (\<lambda>_.
                      retE (subAgentResponse (fst subExecResult))))))
                     (e2b_close env subSandbox))
                   (worldE (e2b_createRLMSandbox env childNodeId rootContextId subPrompt
                              (currentDepth + 1)) w)))"
        if "resultE (e2b_createRLMSandbox env childNodeId rootContextId subPrompt (currentDepth + 1)) w
              = Inr subSandbox" for subSandbox w t1 t2 code
      proof -
        from e2b_createRLMSandbox_fields [OF that]
        have f: "sb_parentNodeId subSandbox = childNodeId" "sb_currentDepth subSandbox = currentDepth + 1"
          by simp_all
        from IH have "handler_below (createLlmHandler env maxDepth rootContextId (currentDepth + 1))
                (sb_currentDepth subSandbox + 1)" by (simp add: f)
        from e2b_execute_wf [OF this, of env code]
        have ex: "wfE ?K (e2b_executeWithLlmSupport env subSandbox code
                      (createLlmHandler env maxDepth rootContextId (currentDepth + 1)))"
          by (simp add: f)
        have "wfE ?K (finallyE
                     (bindE (emitE (NodeOutput childNodeId t1)) (\<lambda>_.
                      bindE (e2b_executeWithLlmSupport env subSandbox code
                               (createLlmHandler env maxDepth rootContextId (currentDepth + 1)))
                        (\<lambda>subExecResult.
                      bindE (emitE (NodeOutput childNodeId t2)) (\<lambda>_.
                      retE (subAgentResponse (fst subExecResult))))))
                     (e2b_close env subSandbox))"
          by (intro wfE_finallyE wfE_bindE ex e2b_close_wf wfE_emitE wfE_retE) simp_all
        then show ?thesis by (simp add: wfE_def)
      qed
      show "wfE ?K (createLlmHandler env maxDepth rootContextId currentDepth subPrompt childNodeId)"
        apply (subst createLlmHandler.simps)
        apply (simp only: True if_True)
        apply (rule wfE_bindE, simp)
        apply (rule wfE_bindE, simp)
        apply (rule wfE_bindE, simp)
        apply (rule wfE_seq)
         apply (rule e2b_createRLMSandbox_wf)
        apply (rule body)
        apply assumption
        done
    qed
  qed
qed

subsection \<open>The stream: one root, everything else below it\<close>

lemma nodes_of_events: "nodes_of tr = created_of (events_of tr)"
  by (induction tr rule: nodes_of.induct) simp_all

lemma reportResult_wf: "wfE known (reportResult env req ctx rootNodeId code res)"
  unfolding reportResult_def
  by (auto intro!: wfE_bindE wfE_emitE wfE_callE)

lemma streamStart_nodes:
  "\<exists>rest. nodes_of (traceE (streamStart env req rootContextId) w) =
             rootNode (fst (nanoid env w)) rootContextId (fst (dateNow env (snd (nanoid env w)))) # rest
          \<and> wfS {(fst (nanoid env w), 0)} rest"
proof -
  let ?id = "fst (nanoid env w)"
  let ?K = "{(?id, 0 :: int)}"
  let ?rest = "(\<lambda>u :: unit.
        bindE (emitE (NodeStatus ?id LlmCalling)) (\<lambda>_.
        bindE (emitE (NodeLlmStart ?id (rq_query req))) (\<lambda>_.
        bindE (callE (CallGenerateText
                        \<lparr> g_system = None,
                          g_prompt = rootPrompt env (rq_query req) (rq_context req) (requestMaxDepth req),
                          g_maxOutputTokens = 8192, g_thinkingBudget = Some 8000 \<rparr>)
                 (generateText env
                        \<lparr> g_system = None,
                          g_prompt = rootPrompt env (rq_query req) (rq_context req) (requestMaxDepth req),
                          g_maxOutputTokens = 8192, g_thinkingBudget = Some 8000 \<rparr>)) (\<lambda>llmText.
        bindE (emitE (NodeLlmEnd ?id (extractPythonCode llmText))) (\<lambda>_.
        bindE (emitE (NodeStatus ?id Executing)) (\<lambda>_.
        bindE (e2b_createRLMSandbox env ?id rootContextId (rq_context req) 0) (\<lambda>sandbox.
        finallyE
          (bindE (e2b_executeWithLlmSupport env sandbox (extractPythonCode llmText)
                    (createLlmHandler env (requestMaxDepth req) rootContextId 0)) (\<lambda>result.
           reportResult env req rootContextId ?id (extractPythonCode llmText) (fst result)))
          (e2b_close env sandbox))))))))"
  have exec: "wfS (?K \<union> node_key ` set (nodes_of (traceE
                (e2b_createRLMSandbox env ?id rootContextId (rq_context req) 0) w')))
             (nodes_of (traceE
                (finallyE
                   (bindE (e2b_executeWithLlmSupport env sandbox code
                             (createLlmHandler env (requestMaxDepth req) rootContextId 0)) (\<lambda>result.
                    reportResult env req rootContextId ?id code (fst result)))
                   (e2b_close env sandbox))
                (worldE (e2b_createRLMSandbox env ?id rootContextId (rq_context req) 0) w')))"
    if "resultE (e2b_createRLMSandbox env ?id rootContextId (rq_context req) 0) w' = Inr sandbox"
    for sandbox w' code
  proof -
    from e2b_createRLMSandbox_fields [OF that]
    have f: "sb_parentNodeId sandbox = ?id" "sb_currentDepth sandbox = 0" by simp_all
    have "handler_below (createLlmHandler env (requestMaxDepth req) rootContextId 0)
            (sb_currentDepth sandbox + 1)"
      using createLlmHandler_below [of env "requestMaxDepth req" rootContextId 0] by (simp add: f)
    from e2b_execute_wf [OF this, of env code]
    have "wfE ?K (e2b_executeWithLlmSupport env sandbox code
                    (createLlmHandler env (requestMaxDepth req) rootContextId 0))"
      by (simp add: f)
    then have "wfE ?K (finallyE
                   (bindE (e2b_executeWithLlmSupport env sandbox code
                             (createLlmHandler env (requestMaxDepth req) rootContextId 0)) (\<lambda>result.
                    reportResult env req rootContextId ?id code (fst result)))
                   (e2b_close env sandbox))"
      by (intro wfE_finallyE wfE_bindE reportResult_wf e2b_close_wf)
    then show ?thesis by (simp add: wfE_def)
  qed
  have rest: "wfE ?K (?rest ())"
    apply (rule wfE_bindE, simp)
    apply (rule wfE_bindE, simp)
    apply (rule wfE_bindE, simp)
    apply (rule wfE_bindE, simp)
    apply (rule wfE_bindE, simp)
    apply (rule wfE_seq)
     apply (rule e2b_createRLMSandbox_wf)
    apply (rule exec)
    apply assumption
    done
  have "nodes_of (traceE (streamStart env req rootContextId) w) =
          rootNode ?id rootContextId (fst (dateNow env (snd (nanoid env w))))
          # nodes_of (traceE (?rest ()) (snd (dateNow env (snd (nanoid env w)))))"
    by (simp add: streamStart_def traceE_catchE nodes_of_bindE split: sum.splits)
  moreover from rest have "wfS ?K (nodes_of (traceE (?rest ()) (snd (dateNow env (snd (nanoid env w))))))"
    by (simp add: wfE_def)
  ultimately show ?thesis by blast
qed

subsection \<open>Folding keeps every node's id, parent and depth\<close>

lemma reducer_shapes:
  "map node_shape (t_nodes (treeStateReducer now s e)) =
     map node_shape (t_nodes s) @ map node_shape (created_of [e])"
  by (cases e) (simp_all add: node_shape_def comp_def)

lemma created_of_append [simp]: "created_of (xs @ ys) = created_of xs @ created_of ys"
  by (induction xs rule: created_of.induct) simp_all

lemma fold_shapes:
  "map node_shape (t_nodes (foldEvents s tes)) =
     map node_shape (t_nodes s) @ map node_shape (created_of (map snd tes))"
proof (induction tes arbitrary: s)
  case Nil
  then show ?case by (simp add: foldEvents_Nil)
next
  case (Cons te tes)
  obtain now e where te: "te = (now, e)" by (cases te)
  have "created_of (e # map snd tes) = created_of [e] @ created_of (map snd tes)"
    using created_of_append [of "[e]" "map snd tes"] by simp
  then show ?case
    by (simp add: te foldEvents_Cons Cons.IH reducer_shapes)
qed

lemma mset_created_of:
  "mset (created_of es) =
     image_mset (\<lambda>e. case e of NodeCreated n \<Rightarrow> n | _ \<Rightarrow> undefined) (filter_mset is_created (mset es))"
  by (induction es rule: created_of.induct) simp_all

lemma created_of_perm: "mset es = mset es' \<Longrightarrow> mset (created_of es) = mset (created_of es')"
  by (simp add: mset_created_of)

subsection \<open>From shapes to the tree\<close>

lemma shapes_tree:
  assumes shapes: "mset (map node_shape ns) = mset (map node_shape (root # rest))"
    and root: "n_parentId root = None" "n_depth root = 0"
    and rest: "wfS {(n_id root, 0)} rest"
  shows "child_depths_ok ns" and "one_root ns"
proof -
  from shapes have "set (map node_shape ns) = set (map node_shape (root # rest))"
    by (rule mset_eq_setD)
  then have sets: "node_shape ` set ns = node_shape ` set (root # rest)"
    by (simp only: set_map)
  have rest_parent: "n_parentId n \<noteq> None" if "n \<in> set rest" for n
    using rest that by (auto simp: wfS_def hangs_below_def)
  show "child_depths_ok ns"
    unfolding child_depths_ok_def
  proof (intro ballI allI impI)
    fix n p assume n: "n \<in> set ns" and p: "n_parentId n = Some p"
    from n have "node_shape n \<in> node_shape ` set (root # rest)"
      unfolding sets [symmetric] by (rule imageI)
    then obtain n' where n': "n' \<in> set (root # rest)" "node_shape n' = node_shape n"
      by (metis imageE)
    with p root(1) have "n' \<in> set rest" by (auto simp: node_shape_def)
    with rest have "hangs_below ({(n_id root, 0)} \<union> node_key ` set rest) n'"
      by (simp add: wfS_def)
    then obtain q d where qd: "(q, d) \<in> {(n_id root, 0)} \<union> node_key ` set rest"
      "n_parentId n' = Some q" "n_depth n' = d + 1"
      by (auto simp: hangs_below_def)
    from qd(1) root(2) obtain m' where m': "m' \<in> set (root # rest)" "n_id m' = q" "n_depth m' = d"
      by (auto simp: node_key_def)
    from m'(1) have "node_shape m' \<in> node_shape ` set ns"
      unfolding sets by (rule imageI)
    then obtain m where m: "m \<in> set ns" "node_shape m = node_shape m'"
      by (metis imageE)
    from m m' qd n'(2) p have "n_id m = p \<and> n_depth n = n_depth m + 1"
      by (auto simp: node_shape_def)
    with m(1) show "\<exists>m \<in> set ns. n_id m = p \<and> n_depth n = n_depth m + 1" by blast
  qed
  let ?P = "\<lambda>s :: string \<times> string option \<times> int. fst (snd s) = None"
  have P: "(\<lambda>n. n_parentId n = None) = ?P \<circ> node_shape"
    by (auto simp: node_shape_def)
  have "filter ?P (map node_shape (root # rest)) = [node_shape root]"
    using root(1) rest_parent by (auto simp: node_shape_def filter_empty_conv)
  then have "mset (filter ?P (map node_shape (root # rest))) = {# node_shape root #}"
    by simp
  then have "mset (filter ?P (map node_shape ns)) = {# node_shape root #}"
    using shapes by (simp only: mset_filter)
  then have "filter ?P (map node_shape ns) = [node_shape root]"
    by (cases "filter ?P (map node_shape ns)") (auto simp: add_mset_eq_single)
  then have "map node_shape (filter (\<lambda>n. n_parentId n = None) ns) = [node_shape root]"
    by (simp add: P filter_map)
  then obtain r where r: "filter (\<lambda>n. n_parentId n = None) ns = [r]" "node_shape r = node_shape root"
    by auto
  with root(2) have "n_depth r = 0" by (simp add: node_shape_def)
  with r(1) show "one_root ns" by (auto simp: one_root_def)
qed

lemma find_distinct_id:
  "distinct (map n_id ns) \<Longrightarrow> m \<in> set ns \<Longrightarrow> find (\<lambda>n. n_id n = n_id m) ns = Some m"
  by (induction ns) auto

text \<open>
  C9. Take any run of the stream (any request, any behaviour of the outside world) and fold
  its events, in the order sent or in any other order, into the initial tree state. In the
  resulting node list every node with a parent id has a node with that id among the nodes
  whose depth is one less than its own, and exactly one node has no parent; that node has
  depth 0. When the generated ids are distinct, the node found by \<open>getNodeById\<close> for a
  parent id is that parent.
\<close>

theorem run_tree_shape:
  assumes "mset (map snd tes) = mset (events_of (traceE (streamStart env req rootContextId) w))"
  shows "child_depths_ok (t_nodes (foldEvents createInitialTreeState tes))
     \<and> one_root (t_nodes (foldEvents createInitialTreeState tes))
     \<and> (distinct (map n_id (t_nodes (foldEvents createInitialTreeState tes))) \<longrightarrow>
          (\<forall>n \<in> set (t_nodes (foldEvents createInitialTreeState tes)). \<forall>p.
             n_parentId n = Some p \<longrightarrow>
             (\<exists>m. getNodeById (foldEvents createInitialTreeState tes) p = Some m
                  \<and> n_depth n = n_depth m + 1)))"
proof -
  let ?st = "foldEvents createInitialTreeState tes"
  let ?run = "events_of (traceE (streamStart env req rootContextId) w)"
  obtain rest where
    nodes: "nodes_of (traceE (streamStart env req rootContextId) w) =
              rootNode (fst (nanoid env w)) rootContextId (fst (dateNow env (snd (nanoid env w)))) # rest"
    and rest: "wfS {(fst (nanoid env w), 0)} rest"
    using streamStart_nodes [of env req rootContextId w] by blast
  let ?root = "rootNode (fst (nanoid env w)) rootContextId (fst (dateNow env (snd (nanoid env w))))"
  have "map node_shape (t_nodes ?st) = map node_shape (created_of (map snd tes))"
    by (simp add: fold_shapes createInitialTreeState_def)
  then have "mset (map node_shape (t_nodes ?st)) = image_mset node_shape (mset (created_of (map snd tes)))"
    by simp
  also have "\<dots> = image_mset node_shape (mset (created_of ?run))"
    using created_of_perm [OF assms] by simp
  also have "\<dots> = mset (map node_shape (?root # rest))"
    using nodes by (simp add: nodes_of_events)
  finally have shapes: "mset (map node_shape (t_nodes ?st)) = mset (map node_shape (?root # rest))" .
  have r: "n_parentId ?root = None" "n_depth ?root = 0" "n_id ?root = fst (nanoid env w)"
    by (simp_all add: rootNode_def)
  from rest have rest': "wfS {(n_id ?root, 0)} rest" by (simp add: r)
  note tree = shapes_tree [OF shapes r(1,2) rest']
  have "\<exists>m. getNodeById ?st p = Some m \<and> n_depth n = n_depth m + 1"
    if d: "distinct (map n_id (t_nodes ?st))" and n: "n \<in> set (t_nodes ?st)"
      and p: "n_parentId n = Some p" for n p
  proof -
    from tree(1) n p obtain m where m: "m \<in> set (t_nodes ?st)" "n_id m = p" "n_depth n = n_depth m + 1"
      unfolding child_depths_ok_def by blast
    from find_distinct_id [OF d m(1)] m(2) have "getNodeById ?st p = Some m"
      by (simp add: getNodeById_def)
    with m(3) show ?thesis by blast
  qed
  with tree show ?thesis by blast
qed

theorem run_tree_shape_witness:
  "child_depths_ok (t_nodes (foldEvents createInitialTreeState scenarioStream))
   \<and> one_root (t_nodes (foldEvents createInitialTreeState scenarioStream))
   \<and> map node_shape (t_nodes (foldEvents createInitialTreeState scenarioStream)) =
       [(''n0'', None, 0), (''n1'', Some ''n0'', 1)]
   \<and> map node_shape (t_nodes (foldEvents createInitialTreeState (rev scenarioStream))) =
       [(''n1'', Some ''n0'', 1), (''n0'', None, 0)]
   \<and> one_root (t_nodes (foldEvents createInitialTreeState (rev scenarioStream)))"
proof -
  have snd_map: "map snd scenarioStream =
      events_of (traceE (streamStart (scenarioEnv (Inr ())) exampleRequest ''ctx'') 0)"
    by (simp add: scenarioStream_def comp_def)
  have h1: "mset (map snd scenarioStream) =
      mset (events_of (traceE (streamStart (scenarioEnv (Inr ())) exampleRequest ''ctx'') 0))"
    by (simp add: snd_map)
  have h2: "mset (map snd (rev scenarioStream)) =
      mset (events_of (traceE (streamStart (scenarioEnv (Inr ())) exampleRequest ''ctx'') 0))"
    by (simp add: snd_map rev_map [symmetric])
  have c: "created_of (map snd scenarioStream) = [rootNode ''n0'' ''ctx'' 1, scenarioChild]"
    by (simp add: snd_map scenario_stream scenarioEvents_def)
  have c': "created_of (map snd (rev scenarioStream)) = [scenarioChild, rootNode ''n0'' ''ctx'' 1]"
    by (simp add: snd_map rev_map [symmetric] scenario_stream scenarioEvents_def)
  have s1: "map node_shape (t_nodes (foldEvents createInitialTreeState scenarioStream)) =
       [(''n0'', None, 0), (''n1'', Some ''n0'', 1)]"
    by (simp add: fold_shapes c createInitialTreeState_def node_shape_def rootNode_def
        scenarioChild_def newChildNode_def scenarioSandbox_def)
  have s2: "map node_shape (t_nodes (foldEvents createInitialTreeState (rev scenarioStream))) =
       [(''n1'', Some ''n0'', 1), (''n0'', None, 0)]"
    by (simp add: fold_shapes c' createInitialTreeState_def node_shape_def rootNode_def
        scenarioChild_def newChildNode_def scenarioSandbox_def)
  from run_tree_shape [OF h1] run_tree_shape [OF h2] s1 s2 show ?thesis by blast
qed

section \<open>C2: terminal events of the stream\<close>

text \<open>
  C2. In the small run the program prints its final result, the route sends
  \<open>execution:complete\<close> and then hands the result to the persistence service. When that
  call fails, the \<open>catch\<close> block of the route sends \<open>execution:error\<close> as well: the stream
  holds two terminal events.
\<close>

theorem failing_persistence_two_terminal_events:
  "filter is_terminal_event
     (events_of (traceE (streamStart (scenarioEnv (Inl ''append failed'')) exampleRequest ''ctx'') 0)) =
     [ExecutionComplete ''1'', ExecutionError ''append failed'']"
  by (simp add: scenario_stream scenarioEvents_def)

lemma working_persistence_one_terminal_event:
  "filter is_terminal_event
     (events_of (traceE (streamStart (scenarioEnv (Inr ())) exampleRequest ''ctx'') 0)) =
     [ExecutionComplete ''1'']"
  by (simp add: scenario_stream scenarioEvents_def)

end
